theory Spec2Isabelle
  imports Complex_Main "HOL-Library.AList" "HOL-Library.Multiset"
begin

section \<open>Data structures\<close>

text \<open>
  The engine computes with Python floats; they are modelled as the reals, so rounding is
  not part of the model. Counters produced by \<open>len\<close> or by adding one are naturals.
  Time stamps (\<open>datetime\<close> values and their ISO strings, which the source compares as
  strings) are integers counting seconds.
\<close>

datatype py_error = KeyError | TypeError | AttributeError | IndexError
  | ZeroDivisionError | ValueError

record IRTParameters =
  difficulty_b :: real
  discrimination_a :: real
  guessing_c :: real

record TopicTheta =
  theta :: real
  percentile :: real
  confidence_SE :: real
  attempts :: nat
  accuracy :: "real option"
  last_updated :: "int option"

text \<open>
  Questions, responses and profiles are Firestore documents read as dictionaries. The
  records keep the keys the engine reads or writes. A response has the keys
  \<open>question_id\<close> and \<open>topic\<close> too; they are \<open>r_question_id\<close> and \<open>r_topic\<close>
  here, and the profile's \<open>current_day\<close> is \<open>profile_current_day\<close>. A student's
  document is stored under the student's id, which is not repeated in the record.
  Dictionaries whose iteration order the engine depends on are association lists.
\<close>

record Question =
  question_id :: string
  topic :: string
  irt_parameters :: IRTParameters

record StudentResponse =
  r_question_id :: string
  r_topic :: string
  is_correct :: bool
  time_taken_seconds :: int
  theta_before :: real
  theta_after :: real
  r_theta_delta :: real
  confidence_SE_before :: real
  confidence_SE_after :: real
  answered_at :: int

record StudentProfile =
  theta_by_topic :: "(string \<times> TopicTheta) list"
  overall_theta :: "real option"
  overall_percentile :: real
  assessment_completed_at :: int
  completed_quiz_count :: nat
  profile_current_day :: int
  learning_phase :: string
  phase_switched_at_quiz :: "nat option"
  total_questions_solved :: nat
  topic_attempt_counts :: "(string \<times> nat) list"
  subject_balance :: "(string \<times> real) list"
  topics_explored :: nat
  topics_confident :: nat
  last_quiz_completed_at :: "int option"

record QuizMetadata =
  quiz_student_id :: string
  quiz_is_recovery :: bool
  quiz_number :: nat
  current_day :: int
  quiz_learning_phase :: string
  generated_at :: int
  metadata_questions :: "(string \<times> string \<times> real \<times> nat) list"
  topics_covered :: "string list"

record SystemEvent =
  event_student_id :: string
  event_type :: string
  trigger_reason :: string
  recovery_quiz_generated :: bool
  event_timestamp :: int

text \<open>
  The Firestore database: the collection of questions in the order a query streams it,
  the student documents, each student's response log, the quiz metadata and the system
  events. A missing \<open>completed_quiz_count\<close> reads as 0 and is incremented to 1, so the
  field is a natural number.
\<close>

record Database =
  questions :: "Question list"
  students :: "string \<Rightarrow> StudentProfile option"
  student_responses :: "string \<Rightarrow> StudentResponse list"
  quizzes :: "QuizMetadata list"
  system_events :: "SystemEvent list"

text \<open>
  The random source: the numbers the generator will deliver, in order (zeros once the
  list is used up). \<open>random.choice\<close> takes the element at a drawn index.
  \<open>random.sample\<close> draws without replacement from a copy of the list: it takes the
  element at a drawn index and moves the last element of the pool into the vacancy, as
  CPython does for the short lists the engine samples from. The engine calls
  \<open>random.choice\<close> on non-empty lists only and \<open>random.sample\<close> with a count no
  larger than the list.
\<close>

type_synonym rng = "nat list"

fun randbelow :: "nat \<Rightarrow> rng \<Rightarrow> nat \<times> rng" where
  "randbelow n [] = (0, [])"
| "randbelow n (r # rs) = (r mod n, rs)"

definition random_choice :: "'a list \<Rightarrow> rng \<Rightarrow> 'a \<times> rng" where
  "random_choice xs g = (let (i, g') = randbelow (length xs) g in (xs ! i, g'))"

fun random_sample :: "'a list \<Rightarrow> nat \<Rightarrow> rng \<Rightarrow> 'a list \<times> rng" where
  "random_sample pool 0 g = ([], g)"
| "random_sample pool (Suc k) g =
     (if pool = [] then ([], g)
      else
        (let (i, g') = randbelow (length pool) g;
             (rest, g'') = random_sample (butlast (pool[i := last pool])) k g'
         in (pool ! i # rest, g'')))"

text \<open>
  \<open>max(xs, key=f)\<close> returns the first element whose key is largest (the running best
  is replaced only by a strictly larger key; \<open>key_less a b\<close> says that the key of
  \<open>a\<close> is smaller than the key of \<open>b\<close>), and
  \<open>sorted(xs, key=f)\<close> is stable, as is \<open>sort_key\<close>; with \<open>reverse=True\<close> the order
  of equal keys is kept as well, which is the stable sort on the negated key.
\<close>

fun py_max_by :: "('a \<Rightarrow> 'a \<Rightarrow> bool) \<Rightarrow> 'a \<Rightarrow> 'a list \<Rightarrow> 'a" where
  "py_max_by key_less best [] = best"
| "py_max_by key_less best (x # xs) = py_max_by key_less (if key_less best x then x else best) xs"

definition py_max_key :: "('a \<Rightarrow> real) \<Rightarrow> 'a \<Rightarrow> 'a list \<Rightarrow> 'a" where
  "py_max_key f best xs = py_max_by (\<lambda>a b. f a < f b) best xs"

definition sorted_desc :: "('a \<Rightarrow> real) \<Rightarrow> 'a list \<Rightarrow> 'a list" where
  "sorted_desc f xs = sort_key (\<lambda>x. - f x) xs"

section \<open>Configuration constants\<close>

definition THETA_MIN :: real where "THETA_MIN = -3"
definition THETA_MAX :: real where "THETA_MAX = 3"
definition BASE_LEARNING_RATE :: real where "BASE_LEARNING_RATE = 3 / 10"
definition LEARNING_RATE_DECAY :: real where "LEARNING_RATE_DECAY = 2 / 100"
definition SE_REDUCTION_RATE :: real where "SE_REDUCTION_RATE = 95 / 100"
definition SE_FLOOR :: real where "SE_FLOOR = 1 / 10"
definition SE_CEILING :: real where "SE_CEILING = 6 / 10"

definition CIRCUIT_BREAKER_THRESHOLD :: nat where "CIRCUIT_BREAKER_THRESHOLD = 5"
definition QUIZ_LENGTH :: nat where "QUIZ_LENGTH = 10"
definition seconds_per_day :: int where "seconds_per_day = 86400"

definition EXPLORATION_END_QUIZ :: nat where "EXPLORATION_END_QUIZ = 14"
definition EXPLORATION_START_RATIO :: real where "EXPLORATION_START_RATIO = 6 / 10"
definition EXPLORATION_END_RATIO :: real where "EXPLORATION_END_RATIO = 3 / 10"
definition WEAK_TOPIC_COUNT_EXPLOITATION :: nat where "WEAK_TOPIC_COUNT_EXPLOITATION = 7"
definition MAINTENANCE_COUNT_EXPLOITATION :: nat where "MAINTENANCE_COUNT_EXPLOITATION = 2"
definition REVIEW_COUNT :: nat where "REVIEW_COUNT = 1"
definition OPTIMAL_DIFFICULTY_RANGE :: real where "OPTIMAL_DIFFICULTY_RANGE = 5 / 10"
definition EXPLORATION_TARGET_DIFFICULTY :: real where "EXPLORATION_TARGET_DIFFICULTY = 9 / 10"
definition RECENT_QUESTIONS_WINDOW_DAYS :: int where "RECENT_QUESTIONS_WINDOW_DAYS = 30"
definition RECOVERY_EASY_MIN :: real where "RECOVERY_EASY_MIN = 4 / 10"
definition RECOVERY_EASY_MAX :: real where "RECOVERY_EASY_MAX = 7 / 10"
definition RECOVERY_MEDIUM_MIN :: real where "RECOVERY_MEDIUM_MIN = 8 / 10"
definition RECOVERY_MEDIUM_MAX :: real where "RECOVERY_MEDIUM_MAX = 11 / 10"

definition JEE_TOPIC_WEIGHTS :: "(string \<times> real) list" where
  "JEE_TOPIC_WEIGHTS =
     [(''physics_mechanics_newtons_laws'', 1),
      (''physics_mechanics_work_energy'', 1),
      (''physics_mechanics_kinematics'', 1),
      (''physics_mechanics_rotational'', 1),
      (''physics_mechanics_gravitation'', 6 / 10),
      (''physics_mechanics_shm'', 6 / 10),
      (''physics_electrostatics_coulomb'', 1),
      (''physics_current_electricity'', 1),
      (''physics_magnetism_emi'', 1),
      (''physics_ac_circuits'', 6 / 10),
      (''physics_modern_photoelectric'', 3 / 10),
      (''physics_modern_atoms'', 3 / 10),
      (''chemistry_physical_thermodynamics'', 1),
      (''chemistry_physical_equilibrium'', 1),
      (''chemistry_physical_kinetics'', 1),
      (''chemistry_physical_electrochemistry'', 6 / 10),
      (''chemistry_organic_nomenclature'', 6 / 10),
      (''chemistry_organic_reactions'', 1),
      (''chemistry_organic_mechanisms'', 6 / 10),
      (''chemistry_inorganic_coordination'', 3 / 10),
      (''chemistry_inorganic_periodicity'', 6 / 10),
      (''mathematics_calculus_limits'', 1),
      (''mathematics_calculus_derivatives'', 1),
      (''mathematics_calculus_integrals'', 1),
      (''mathematics_calculus_differential_equations'', 6 / 10),
      (''mathematics_algebra_quadratic'', 6 / 10),
      (''mathematics_algebra_sequences'', 6 / 10),
      (''mathematics_algebra_complex'', 1),
      (''mathematics_coord_geom_circle'', 1),
      (''mathematics_coord_geom_parabola'', 6 / 10)]"

definition TOPIC_PREREQUISITE_DEPTH :: "(string \<times> nat) list" where
  "TOPIC_PREREQUISITE_DEPTH =
     [(''physics_mechanics_kinematics'', 0),
      (''physics_mechanics_newtons_laws'', 1),
      (''physics_mechanics_work_energy'', 2),
      (''physics_mechanics_rotational'', 3)]"

section \<open>Core IRT functions\<close>

definition calculate_probability_3PL :: "real \<Rightarrow> real \<Rightarrow> real \<Rightarrow> real \<Rightarrow> real" where
  "calculate_probability_3PL th b a c =
     (let exponent = - a * (th - b) in
      if exponent > 20 then c
      else if exponent < - 20 then 1
      else max 0 (min 1 (c + (1 - c) / (1 + exp exponent))))"

definition calculate_fisher_information :: "real \<Rightarrow> real \<Rightarrow> real \<Rightarrow> real \<Rightarrow> real" where
  "calculate_fisher_information th b a c =
     (let P = calculate_probability_3PL th b a c;
          exponent = - a * (th - b)
      in if \<bar>exponent\<bar> > 20 then 0
         else
           (let exp_val = exp exponent;
                denominator = (1 + exp_val)\<^sup>2;
                P_prime = a * (1 - c) * exp_val / denominator;
                Q = 1 - P
            in if P > 1 / 100 \<and> P < 99 / 100
               then a\<^sup>2 * P_prime\<^sup>2 / (P * Q)
               else 0))"

definition bound_theta :: "real \<Rightarrow> real" where
  "bound_theta th = max THETA_MIN (min THETA_MAX th)"

section \<open>Initial assessment\<close>

text \<open>
  \<open>math.sqrt\<close> raises ValueError on a negative argument, and the float division
  \<open>1.0 / 0.0\<close> raises ZeroDivisionError.
\<close>

definition calculate_initial_SE :: "int \<Rightarrow> real \<Rightarrow> py_error + real" where
  "calculate_initial_SE num_questions acc =
     (if num_questions < 0 then Inl ValueError
      else if sqrt (real_of_int num_questions) = 0 then Inl ZeroDivisionError
      else
        (let base_SE = 1 / sqrt (real_of_int num_questions);
             information_penalty = 1 + \<bar>acc - 1 / 2\<bar>;
             SE = base_SE * information_penalty
         in Inr (min SE_CEILING (max SE_FLOOR SE))))"

section \<open>Theta update after each question\<close>

text \<open>
  Lines 526 to 560 of the source, the arithmetic of \<open>update_theta_after_response\<close> on
  the topic's record: the new record and the delta that is logged. The percentile is
  \<open>norm.cdf\<close> of scipy times 100; the distribution function is a parameter.
\<close>

definition learning_rate :: "nat \<Rightarrow> real" where
  "learning_rate n = BASE_LEARNING_RATE / (1 + LEARNING_RATE_DECAY * real n)"

definition theta_delta :: "real \<Rightarrow> nat \<Rightarrow> IRTParameters \<Rightarrow> bool \<Rightarrow> real" where
  "theta_delta current_theta n irt correct =
     (let P_correct = calculate_probability_3PL current_theta (difficulty_b irt)
                        (discrimination_a irt) (guessing_c irt)
      in if correct then learning_rate n * (1 - P_correct)
         else - learning_rate n * P_correct)"

definition updated_topic_theta ::
    "(real \<Rightarrow> real) \<Rightarrow> int \<Rightarrow> TopicTheta \<Rightarrow> IRTParameters \<Rightarrow> bool \<Rightarrow> TopicTheta" where
  "updated_topic_theta norm_cdf now topic_theta irt correct =
     (let current_theta = theta topic_theta;
          current_SE = confidence_SE topic_theta;
          n = attempts topic_theta;
          delta = theta_delta current_theta n irt correct;
          new_theta = bound_theta (current_theta + delta);
          new_SE = max SE_FLOOR (current_SE * SE_REDUCTION_RATE)
      in \<lparr> theta = new_theta,
           percentile = norm_cdf new_theta * 100,
           confidence_SE = new_SE,
           attempts = n + 1,
           accuracy =
             (case accuracy topic_theta of
                Some old_accuracy \<Rightarrow>
                  Some ((old_accuracy * real n + (if correct then 1 else 0)) / real (n + 1))
              | None \<Rightarrow> Some (if correct then 1 else 0)),
           last_updated = Some now \<rparr>)"

text \<open>
  A sequence of updates of one topic: every record written, in order, starting from the
  given one. Each call reads the record the previous call wrote.
\<close>

fun update_sequence ::
    "(real \<Rightarrow> real) \<Rightarrow> TopicTheta \<Rightarrow> (int \<times> IRTParameters \<times> bool) list \<Rightarrow> TopicTheta list" where
  "update_sequence norm_cdf tt [] = []"
| "update_sequence norm_cdf tt ((now, irt, correct) # calls) =
     (let tt' = updated_topic_theta norm_cdf now tt irt correct
      in tt' # update_sequence norm_cdf tt' calls)"

definition theta_in_bounds :: "TopicTheta \<Rightarrow> bool" where
  "theta_in_bounds tt =
     (THETA_MIN \<le> theta tt \<and> theta tt \<le> THETA_MAX \<and>
      SE_FLOOR \<le> confidence_SE tt \<and> confidence_SE tt \<le> SE_CEILING)"

section \<open>Circuit breaker\<close>

text \<open>
  The query orders the student's responses by \<open>answered_at\<close>, newest first, and keeps
  10 of them. The loop counts the incorrect answers up to the first correct one.
\<close>

definition order_by_answered_at_desc :: "StudentResponse list \<Rightarrow> StudentResponse list" where
  "order_by_answered_at_desc rs = sort_key (\<lambda>r. - answered_at r) rs"

fun count_consecutive_failures :: "StudentResponse list \<Rightarrow> nat \<Rightarrow> nat" where
  "count_consecutive_failures [] consecutive_failures = consecutive_failures"
| "count_consecutive_failures (response # rest) consecutive_failures =
     (if \<not> is_correct response
      then count_consecutive_failures rest (consecutive_failures + 1)
      else consecutive_failures)"

definition check_circuit_breaker :: "Database \<Rightarrow> string \<Rightarrow> bool" where
  "check_circuit_breaker db student_id =
     (let responses_list =
            take 10 (order_by_answered_at_desc (student_responses db student_id))
      in if length responses_list < CIRCUIT_BREAKER_THRESHOLD then False
         else count_consecutive_failures responses_list 0 \<ge> CIRCUIT_BREAKER_THRESHOLD)"

text \<open>
  The trigger rule in the words of the specification: among the 10 most recent entries,
  newest first, the run of incorrect answers that starts at the newest has length 5 or
  more.
\<close>

definition circuit_breaker_rule :: "StudentResponse list \<Rightarrow> bool" where
  "circuit_breaker_rule response_log =
     (5 \<le> length (takeWhile (\<lambda>r. \<not> is_correct r)
                    (take 10 (order_by_answered_at_desc response_log))))"

section \<open>Interleaving by topic\<close>

text \<open>
  \<open>topic_groups\<close> is a dictionary from topic to the list of its questions, in the order
  the topics first occur; \<open>remaining_topics\<close> is the list of its keys. Each round of the
  loop takes the first question of a chosen topic. Reading a missing key or taking from
  an empty list would raise.
\<close>

fun group_by_topic ::
    "Question list \<Rightarrow> (string \<times> Question list) list \<Rightarrow> (string \<times> Question list) list" where
  "group_by_topic [] topic_groups = topic_groups"
| "group_by_topic (q # qs) topic_groups =
     group_by_topic qs
       (AList.update (topic q)
          ((case map_of topic_groups (topic q) of None \<Rightarrow> [] | Some grp \<Rightarrow> grp) @ [q])
          topic_groups)"

definition groups_size :: "(string \<times> Question list) list \<Rightarrow> nat" where
  "groups_size topic_groups = sum_list (map (\<lambda>p. length (snd p)) topic_groups)"

lemma groups_size_pop:
  "map_of topic_groups t = Some (q # rest) \<Longrightarrow>
     groups_size (AList.update t rest topic_groups) < groups_size topic_groups"
  by (induction topic_groups) (auto simp: groups_size_def split: if_splits)

function interleave_loop ::
    "(string \<times> Question list) list \<Rightarrow> string list \<Rightarrow> Question list \<Rightarrow> rng
       \<Rightarrow> py_error + Question list \<times> rng" where
  "interleave_loop topic_groups remaining_topics interleaved g =
     (if remaining_topics = [] then Inr (interleaved, g)
      else
        (let available =
               (if interleaved \<noteq> []
                then filter (\<lambda>t. t \<noteq> topic (last interleaved)) remaining_topics
                else remaining_topics);
             available = (if available = [] then remaining_topics else available);
             (next_topic, g') = random_choice available g
         in case map_of topic_groups next_topic of
              None \<Rightarrow> Inl KeyError
            | Some [] \<Rightarrow> Inl IndexError
            | Some (q # rest) \<Rightarrow>
                interleave_loop (AList.update next_topic rest topic_groups)
                  (if rest = [] then remove1 next_topic remaining_topics else remaining_topics)
                  (interleaved @ [q]) g'))"
  by pat_completeness auto
termination
  by (relation "measure (\<lambda>(topic_groups, remaining_topics, interleaved, g). groups_size topic_groups)")
     (auto simp: groups_size_pop)

declare interleave_loop.simps [simp del]

definition interleave_questions_by_topic ::
    "Question list \<Rightarrow> rng \<Rightarrow> py_error + Question list \<times> rng" where
  "interleave_questions_by_topic qs g =
     (let topic_groups = group_by_topic qs []
      in interleave_loop topic_groups (map fst topic_groups) [] g)"

section \<open>The ability store on the database\<close>

definition dict_get :: "('k \<times> 'v) list \<Rightarrow> 'k \<Rightarrow> 'v \<Rightarrow> 'v" where
  "dict_get d k dflt = (case map_of d k of None \<Rightarrow> dflt | Some v \<Rightarrow> v)"

definition startswith :: "string \<Rightarrow> string \<Rightarrow> bool" where
  "startswith s p = (take (length p) s = p)"

definition get_subject_from_topic :: "string \<Rightarrow> string" where
  "get_subject_from_topic topic_name =
     (if startswith topic_name ''physics_'' then ''physics''
      else if startswith topic_name ''chemistry_'' then ''chemistry''
      else if startswith topic_name ''mathematics_'' then ''mathematics''
      else ''unknown'')"

text \<open>
  \<open>db.collection('questions').document(question_id).get().to_dict()\<close>: the question
  with that id, or \<open>None\<close>.
\<close>

definition get_question :: "Database \<Rightarrow> string \<Rightarrow> Question option" where
  "get_question db qid = find (\<lambda>q. question_id q = qid) (questions db)"



section \<open>Initial assessment on the database\<close>










section \<open>Helpers of the quiz generation\<close>

definition get_recent_questions :: "Database \<Rightarrow> string \<Rightarrow> int \<Rightarrow> int \<Rightarrow> string list" where
  "get_recent_questions db student_id now days =
     (let cutoff = now - days * seconds_per_day
      in map r_question_id
           (filter (\<lambda>r. answered_at r \<ge> cutoff) (student_responses db student_id)))"

definition get_unexplored_topics :: "(string \<times> nat) list \<Rightarrow> nat \<Rightarrow> string list" where
  "get_unexplored_topics topic_attempts min_attempts =
     (let all_topics = map fst JEE_TOPIC_WEIGHTS
      in filter (\<lambda>t. dict_get topic_attempts t 0 < min_attempts
                      \<and> dict_get JEE_TOPIC_WEIGHTS t 0 \<ge> 6 / 10) all_topics)"

definition exploration_priority :: "(string \<times> real) list \<Rightarrow> string \<Rightarrow> real" where
  "exploration_priority balance topic_name =
     (let weightage_score = dict_get JEE_TOPIC_WEIGHTS topic_name (1 / 2) / 1;
          prereq_depth = dict_get TOPIC_PREREQUISITE_DEPTH topic_name 1;
          prereq_score = 1 - real prereq_depth / 3;
          subject = get_subject_from_topic topic_name;
          current_coverage = dict_get balance subject (33 / 100);
          target_coverage = 1 / 3;
          balance_score = 1 - \<bar>current_coverage - target_coverage\<bar>
      in weightage_score * (5 / 10) + prereq_score * (3 / 10) + balance_score * (2 / 10))"

definition prioritize_exploration_topics ::
    "string list \<Rightarrow> (string \<times> real) list \<Rightarrow> string list" where
  "prioritize_exploration_topics unexplored_topics balance =
     (let scored_topics = map (\<lambda>t. (t, exploration_priority balance t)) unexplored_topics
      in map fst (sorted_desc snd scored_topics))"

text \<open>
  The sort keys read \<open>theta_by_topic[t]\<close> for every topic of the list; a topic missing
  from the dictionary raises KeyError.
\<close>

definition lookup_thetas ::
    "string list \<Rightarrow> (string \<times> TopicTheta) list \<Rightarrow> py_error + (string \<times> real) list" where
  "lookup_thetas topics tbt =
     (if list_all (\<lambda>t. map_of tbt t \<noteq> None) topics
      then Inr (map (\<lambda>t. (t, case map_of tbt t of Some tt \<Rightarrow> theta tt | None \<Rightarrow> 0)) topics)
      else Inl KeyError)"

definition rank_topics_by_weakness ::
    "string list \<Rightarrow> (string \<times> TopicTheta) list \<Rightarrow> py_error + string list" where
  "rank_topics_by_weakness topics tbt =
     (case lookup_thetas topics tbt of
        Inl e \<Rightarrow> Inl e
      | Inr keyed \<Rightarrow> Inr (map fst (sort_key snd keyed)))"

definition days_since_last_attempt :: "Database \<Rightarrow> string \<Rightarrow> string \<Rightarrow> int \<Rightarrow> int" where
  "days_since_last_attempt db topic_name student_id now =
     (case order_by_answered_at_desc
             (filter (\<lambda>r. r_topic r = topic_name) (student_responses db student_id)) of
        [] \<Rightarrow> 999
      | r # _ \<Rightarrow> (now - answered_at r) div seconds_per_day)"

text \<open>
  The priorities are sums of products of floats in the source; on the reals two topics
  can tie where the floats differ in the last place, and the stable sort then keeps the
  order of the dictionary.
\<close>

definition exploitation_priority :: "Database \<Rightarrow> string \<Rightarrow> int \<Rightarrow> string \<Rightarrow> real \<Rightarrow> real" where
  "exploitation_priority db student_id now topic_name th =
     (let normalized_theta = (th + 3) / 6;
          weakness_score = 1 - normalized_theta;
          days_since = days_since_last_attempt db topic_name student_id now;
          recency_score = min 1 (real_of_int days_since / 7);
          jee_weight = dict_get JEE_TOPIC_WEIGHTS topic_name (1 / 2)
      in weakness_score * (6 / 10) + recency_score * (2 / 10) + jee_weight * (2 / 10))"

definition rank_topics_by_priority_formula ::
    "Database \<Rightarrow> int \<Rightarrow> string list \<Rightarrow> (string \<times> TopicTheta) list \<Rightarrow> string
       \<Rightarrow> py_error + string list" where
  "rank_topics_by_priority_formula db now topics tbt student_id =
     (case lookup_thetas topics tbt of
        Inl e \<Rightarrow> Inl e
      | Inr keyed \<Rightarrow>
          (let scored_topics =
                 map (\<lambda>(t, th). (t, exploitation_priority db student_id now t th)) keyed
           in Inr (map fst (sorted_desc snd scored_topics))))"

section \<open>Item selection\<close>

text \<open>
  \<open>Query.stream()\<close> returns a generator: iterating it yields every document once and
  leaves it empty. \<open>stream_all\<close> gives the documents a loop over the generator sees and
  the generator as the loop leaves it.
\<close>

definition stream_all :: "'a list \<Rightarrow> 'a list \<times> 'a list" where
  "stream_all s = (s, [])"

definition strict_candidate :: "real \<Rightarrow> string list \<Rightarrow> real \<Rightarrow> Question \<Rightarrow> bool" where
  "strict_candidate target_theta recent_questions discrimination_min q =
     (\<not> question_id q \<in> set recent_questions \<and>
      \<not> discrimination_a (irt_parameters q) < discrimination_min \<and>
      \<not> \<bar>difficulty_b (irt_parameters q) - target_theta\<bar> > OPTIMAL_DIFFICULTY_RANGE)"

definition question_information :: "real \<Rightarrow> Question \<Rightarrow> real" where
  "question_information target_theta q =
     calculate_fisher_information target_theta (difficulty_b (irt_parameters q))
       (discrimination_a (irt_parameters q)) (guessing_c (irt_parameters q))"

definition select_optimal_question_IRT ::
    "Database \<Rightarrow> string \<Rightarrow> real \<Rightarrow> string list \<Rightarrow> real \<Rightarrow> Question option" where
  "select_optimal_question_IRT db topic_name target_theta recent_questions discrimination_min =
     (let questions_query = filter (\<lambda>q. topic q = topic_name) (questions db);
          (docs, questions_query) = stream_all questions_query;
          candidates = filter (strict_candidate target_theta recent_questions discrimination_min) docs;
          candidates =
            (if length candidates = 0
             then filter (\<lambda>q. question_id q \<notin> set recent_questions)
                    (fst (stream_all questions_query))
             else candidates)
      in case candidates of
           [] \<Rightarrow> None
         | c # cs \<Rightarrow> Some (py_max_key (question_information target_theta) c cs))"

text \<open>
  The item selector in the words of the specification: the strict filter first, then
  without the discrimination constraint, then without the difficulty window as well;
  the item of largest Fisher information among the first non-empty set of survivors.
\<close>

definition spec_select :: "Database \<Rightarrow> string \<Rightarrow> real \<Rightarrow> string list \<Rightarrow> real \<Rightarrow> Question option" where
  "spec_select db topic_name target_theta recent_set a_min =
     (let pool = filter (\<lambda>q. topic q = topic_name \<and> question_id q \<notin> set recent_set) (questions db);
          in_window = (\<lambda>q. \<bar>difficulty_b (irt_parameters q) - target_theta\<bar> \<le> 5 / 10);
          strict = filter (\<lambda>q. discrimination_a (irt_parameters q) \<ge> a_min \<and> in_window q) pool;
          relaxed = filter in_window pool;
          survivors = (if strict \<noteq> [] then strict else if relaxed \<noteq> [] then relaxed else pool)
      in case survivors of
           [] \<Rightarrow> None
         | c # cs \<Rightarrow> Some (py_max_key (question_information target_theta) c cs))"

definition select_questions_by_difficulty_range ::
    "Database \<Rightarrow> string \<Rightarrow> real \<Rightarrow> real \<Rightarrow> nat \<Rightarrow> string list \<Rightarrow> real \<Rightarrow> rng
       \<Rightarrow> Question list \<times> rng" where
  "select_questions_by_difficulty_range db topic_name difficulty_min difficulty_max n
       recent_questions discrimination_min g =
     (let in_range = filter (\<lambda>q. topic q = topic_name
                               \<and> difficulty_b (irt_parameters q) \<ge> difficulty_min
                               \<and> difficulty_b (irt_parameters q) \<le> difficulty_max) (questions db);
          candidates = filter (\<lambda>q. question_id q \<notin> set recent_questions
                                  \<and> discrimination_a (irt_parameters q) \<ge> discrimination_min)
                         (fst (stream_all in_range));
          candidates =
            (if length candidates = 0
             then filter (\<lambda>q. question_id q \<notin> set recent_questions)
                    (fst (stream_all (filter (\<lambda>q. topic q = topic_name) (questions db))))
             else candidates)
      in random_sample candidates (min n (length candidates)) g)"

definition get_previously_correct_question ::
    "Database \<Rightarrow> string \<Rightarrow> string list \<Rightarrow> string list \<Rightarrow> int \<Rightarrow> rng
       \<Rightarrow> Question option \<times> rng" where
  "get_previously_correct_question db student_id recent_questions from_topics now g =
     (let cutoff_start = now - 14 * seconds_per_day;
          cutoff_end = now - 7 * seconds_per_day;
          responses = filter (\<lambda>r. is_correct r \<and> answered_at r \<ge> cutoff_start
                                  \<and> answered_at r \<le> cutoff_end)
                        (student_responses db student_id);
          candidates = filter (\<lambda>r. r_topic r \<in> set from_topics
                                   \<and> r_question_id r \<notin> set recent_questions) responses
      in if length candidates = 0 then (None, g)
         else (let (chosen, g') = random_choice candidates g
               in (get_question db (r_question_id chosen), g')))"

definition review_priority :: "int \<Rightarrow> nat option" where
  "review_priority days_since =
     (if days_since \<ge> 30 then Some 5
      else if days_since \<ge> 14 then Some 4
      else if days_since \<ge> 7 then Some 3
      else if days_since \<ge> 3 then Some 2
      else if days_since \<ge> 1 then Some 1
      else None)"

definition get_spaced_review_question ::
    "Database \<Rightarrow> string \<Rightarrow> string list \<Rightarrow> int \<Rightarrow> Question option" where
  "get_spaced_review_question db student_id recent_questions now =
     (let responses = filter is_correct (student_responses db student_id);
          reviewable = filter (\<lambda>r. r_question_id r \<notin> set recent_questions) responses
      in if length reviewable = 0 then None
         else
           (let scored = List.map_filter
                  (\<lambda>r. let days_since = (now - answered_at r) div seconds_per_day
                       in map_option (\<lambda>p. (r_question_id r, p, days_since))
                            (review_priority days_since)) reviewable
            in case scored of
                 [] \<Rightarrow> None
               | s # ss \<Rightarrow>
                   get_question db
                     (fst (py_max_by
                             (\<lambda>x y. fst (snd x) < fst (snd y)
                                     \<or> (fst (snd x) = fst (snd y) \<and> snd (snd x) < snd (snd y)))
                             s ss))))"

definition save_quiz_metadata ::
    "Database \<Rightarrow> string \<Rightarrow> bool \<Rightarrow> nat \<Rightarrow> string \<Rightarrow> Question list \<Rightarrow> int
       \<Rightarrow> py_error + Database" where
  "save_quiz_metadata db student_id is_recovery quiz_count phase qs now =
     (case students db student_id of
        None \<Rightarrow> Inl TypeError
      | Some student_data \<Rightarrow>
          (let day = (now - assessment_completed_at student_data) div seconds_per_day;
               quiz_data =
                 \<lparr> quiz_student_id = student_id,
                   quiz_is_recovery = is_recovery,
                   quiz_number = quiz_count,
                   current_day = day,
                   quiz_learning_phase = phase,
                   generated_at = now,
                   metadata_questions =
                     map (\<lambda>(i, q). (question_id q, topic q, difficulty_b (irt_parameters q), i + 1))
                       (enumerate 0 qs),
                   topics_covered = remdups (map topic qs) \<rparr>
           in Inr (db \<lparr> quizzes := quizzes db @ [quiz_data] \<rparr>)))"

section \<open>Recovery quiz\<close>

definition log_circuit_breaker_event :: "Database \<Rightarrow> string \<Rightarrow> string \<Rightarrow> bool \<Rightarrow> int \<Rightarrow> Database" where
  "log_circuit_breaker_event db student_id reason recovery now =
     db \<lparr> system_events := system_events db @
            [\<lparr> event_student_id = student_id,
               event_type = ''circuit_breaker_triggered'',
               trigger_reason = reason,
               recovery_quiz_generated = recovery,
               event_timestamp = now \<rparr>] \<rparr>"

text \<open>
  The two loops of \<open>generate_recovery_quiz\<close> over the weak topics: each round extends
  the list by the questions selected for one topic.
\<close>

fun recovery_selection ::
    "Database \<Rightarrow> real \<Rightarrow> real \<Rightarrow> nat \<Rightarrow> string list \<Rightarrow> string list \<Rightarrow> rng
       \<Rightarrow> Question list \<times> rng" where
  "recovery_selection db difficulty_min difficulty_max n recent_questions [] g = ([], g)"
| "recovery_selection db difficulty_min difficulty_max n recent_questions (topic_name # rest) g =
     (let (selected, g') =
            select_questions_by_difficulty_range db topic_name difficulty_min difficulty_max n
              recent_questions 1 g;
          (more, g'') =
            recovery_selection db difficulty_min difficulty_max n recent_questions rest g'
      in (selected @ more, g''))"

definition recovery_questions_of ::
    "Database \<Rightarrow> string \<Rightarrow> StudentProfile \<Rightarrow> int \<Rightarrow> rng \<Rightarrow> Question list \<times> rng" where
  "recovery_questions_of db student_id student_data now g =
     (let recent_questions =
            get_recent_questions db student_id now RECENT_QUESTIONS_WINDOW_DAYS;
          weak_topics = take 5 (sort_key (\<lambda>x. theta (snd x)) (theta_by_topic student_data));
          (easy_questions, g1) =
            recovery_selection db RECOVERY_EASY_MIN RECOVERY_EASY_MAX 2 recent_questions
              (map fst (take 4 weak_topics)) g;
          (medium_questions, g2) =
            recovery_selection db RECOVERY_MEDIUM_MIN RECOVERY_MEDIUM_MAX 1 recent_questions
              (map fst (take 2 weak_topics)) g1;
          (review_question, g3) =
            get_previously_correct_question db student_id recent_questions
              (map fst weak_topics) now g2
      in (easy_questions @ medium_questions
            @ (case review_question of None \<Rightarrow> [] | Some q \<Rightarrow> [q]), g3))"

definition generate_recovery_quiz ::
    "Database \<Rightarrow> string \<Rightarrow> StudentProfile \<Rightarrow> int \<Rightarrow> rng
       \<Rightarrow> py_error + Question list \<times> Database \<times> rng" where
  "generate_recovery_quiz db student_id student_data now g =
     (let (recovery_questions, g3) = recovery_questions_of db student_id student_data now g
      in case interleave_questions_by_topic (take 10 recovery_questions) g3 of
           Inl e \<Rightarrow> Inl e
         | Inr (interleaved, g4) \<Rightarrow>
             (let db1 = log_circuit_breaker_event db student_id ''consecutive_failures'' True now
              in case save_quiz_metadata db1 student_id True
                        (completed_quiz_count student_data) ''recovery'' interleaved now of
                   Inl e \<Rightarrow> Inl e
                 | Inr db2 \<Rightarrow> Inr (interleaved, db2, g4)))"

section \<open>Daily quiz generation\<close>

text \<open>
  \<open>theta_by_topic[t]['theta']\<close>, read only for topics that are keys of the dictionary:
  after the membership test of the exploration loop, after the ranking (which raises
  on a missing key), or for the keys themselves.
\<close>

definition theta_of :: "(string \<times> TopicTheta) list \<Rightarrow> string \<Rightarrow> real" where
  "theta_of tbt t = (case map_of tbt t of Some tt \<Rightarrow> theta tt | None \<Rightarrow> 0)"

definition learning_phase_and_ratio :: "nat \<Rightarrow> string \<times> real" where
  "learning_phase_and_ratio quiz_count =
     (if quiz_count < EXPLORATION_END_QUIZ
      then (''exploration'',
            max (EXPLORATION_START_RATIO - real quiz_count * (4 / 100)) EXPLORATION_END_RATIO)
      else (''exploitation'', 0))"

text \<open>
  The exploration branch. \<open>int(QUIZ_LENGTH * exploration_ratio)\<close> truncates a positive
  product, which is its floor; on the reals the product is exact, where the floats of
  the source can fall just below a whole number.
\<close>

definition exploration_questions ::
    "Database \<Rightarrow> string \<Rightarrow> StudentProfile \<Rightarrow> real \<Rightarrow> string list \<Rightarrow> int
       \<Rightarrow> py_error + Question list" where
  "exploration_questions db student_id student_data exploration_ratio recent_questions_30d now =
     (let tbt = theta_by_topic student_data;
          topic_attempts = topic_attempt_counts student_data;
          num_exploration = nat \<lfloor>real QUIZ_LENGTH * exploration_ratio\<rfloor>;
          num_deliberate = QUIZ_LENGTH - num_exploration - REVIEW_COUNT;
          unexplored_topics = get_unexplored_topics topic_attempts 2;
          exploration_topics =
            take num_exploration
              (prioritize_exploration_topics unexplored_topics (subject_balance student_data));
          explored = List.map_filter
            (\<lambda>t. let target_difficulty =
                        (if map_of tbt t = None \<or> dict_get topic_attempts t 0 = 0
                         then EXPLORATION_TARGET_DIFFICULTY
                         else theta_of tbt t)
                  in select_optimal_question_IRT db t target_difficulty recent_questions_30d
                       (14 / 10))
            exploration_topics;
          tested_topics = map fst (filter (\<lambda>(t, n). n \<ge> 2) topic_attempts)
      in case rank_topics_by_weakness tested_topics tbt of
           Inl e \<Rightarrow> Inl e
         | Inr weak_topics \<Rightarrow>
             (let deliberate = List.map_filter
                    (\<lambda>t. select_optimal_question_IRT db t (theta_of tbt t)
                            recent_questions_30d (14 / 10))
                    (take num_deliberate weak_topics);
                  review_q = get_spaced_review_question db student_id recent_questions_30d now
              in Inr (explored @ deliberate
                        @ (case review_q of None \<Rightarrow> [] | Some q \<Rightarrow> [q]))))"

definition exploitation_questions ::
    "Database \<Rightarrow> string \<Rightarrow> StudentProfile \<Rightarrow> string list \<Rightarrow> int \<Rightarrow> rng
       \<Rightarrow> py_error + Question list \<times> rng" where
  "exploitation_questions db student_id student_data recent_questions_30d now g =
     (let tbt = theta_by_topic student_data;
          all_topics = map fst tbt
      in case rank_topics_by_priority_formula db now all_topics tbt student_id of
           Inl e \<Rightarrow> Inl e
         | Inr ranked_topics \<Rightarrow>
             (let weak_topics = take WEAK_TOPIC_COUNT_EXPLOITATION ranked_topics;
                  weak = List.map_filter
                    (\<lambda>t. select_optimal_question_IRT db t (theta_of tbt t)
                            recent_questions_30d (14 / 10))
                    weak_topics;
                  strong_topics = drop (length ranked_topics - 5) ranked_topics;
                  (maintenance_topics, g') =
                    random_sample strong_topics
                      (min MAINTENANCE_COUNT_EXPLOITATION (length strong_topics)) g;
                  maintenance = List.map_filter
                    (\<lambda>t. select_optimal_question_IRT db t (theta_of tbt t)
                            recent_questions_30d 1)
                    maintenance_topics;
                  review_q = get_spaced_review_question db student_id recent_questions_30d now
              in Inr (weak @ maintenance
                        @ (case review_q of None \<Rightarrow> [] | Some q \<Rightarrow> [q]), g')))"

text \<open>
  The questions of the quiz before interleaving: the exploration branch or the
  exploitation branch of \<open>generate_daily_quiz\<close>, by the learning phase.
\<close>

definition phase_questions ::
    "Database \<Rightarrow> string \<Rightarrow> StudentProfile \<Rightarrow> string \<Rightarrow> real \<Rightarrow> string list \<Rightarrow> int \<Rightarrow> rng
       \<Rightarrow> py_error + Question list \<times> rng" where
  "phase_questions db student_id student_data phase exploration_ratio recent_questions_30d now g =
     (if phase = ''exploration''
      then (case exploration_questions db student_id student_data exploration_ratio
                   recent_questions_30d now of
              Inl e \<Rightarrow> Inl e
            | Inr qs \<Rightarrow> Inr (qs, g))
      else exploitation_questions db student_id student_data recent_questions_30d now g)"

text \<open>
  \<open>student_ref.update\<close> changes fields of the student's document as it is in the
  database at that moment.
\<close>

definition update_student ::
    "Database \<Rightarrow> string \<Rightarrow> (StudentProfile \<Rightarrow> StudentProfile) \<Rightarrow> Database" where
  "update_student db student_id f =
     (case students db student_id of
        None \<Rightarrow> db
      | Some s \<Rightarrow> db \<lparr> students := (students db)(student_id \<mapsto> f s) \<rparr>)"

definition finish_quiz :: "int \<Rightarrow> string \<Rightarrow> StudentProfile \<Rightarrow> StudentProfile" where
  "finish_quiz now phase s =
     s \<lparr> completed_quiz_count := completed_quiz_count s + 1,
         learning_phase := phase,
         last_quiz_completed_at := Some now \<rparr>"

text \<open>
  The branch on the quiz count (lines 930 to 941 of the source) sets the phase and the
  exploration ratio, and in its exploitation arm marks the phase transition on the
  student's document when that has not been marked before.
\<close>

definition mark_phase_transition ::
    "Database \<Rightarrow> string \<Rightarrow> StudentProfile \<Rightarrow> nat \<Rightarrow> Database" where
  "mark_phase_transition db student_id student_data quiz_count =
     (if quiz_count < EXPLORATION_END_QUIZ then db
      else if phase_switched_at_quiz student_data = None
      then update_student db student_id (\<lambda>s. s \<lparr> phase_switched_at_quiz := Some quiz_count \<rparr>)
      else db)"

text \<open>
  Step 1 of \<open>generate_daily_quiz\<close>, the normal quiz. \<open>generate_normal_quiz\<close> is the
  branch on the quiz count; \<open>compose_quiz\<close> is what follows it with the phase and the
  exploration ratio the branch has set: the questions of the phase, interleaving,
  truncation to the quiz length, metadata, counters.
\<close>

definition compose_quiz ::
    "Database \<Rightarrow> string \<Rightarrow> StudentProfile \<Rightarrow> nat \<Rightarrow> string \<Rightarrow> real \<Rightarrow> string list \<Rightarrow> int \<Rightarrow> rng
       \<Rightarrow> py_error + Question list \<times> Database \<times> rng" where
  "compose_quiz db1 student_id student_data quiz_count phase exploration_ratio
       recent_questions_30d now g =
     (case phase_questions db1 student_id student_data phase exploration_ratio
             recent_questions_30d now g of
        Inl e \<Rightarrow> Inl e
      | Inr (quiz_questions, g1) \<Rightarrow>
          (case interleave_questions_by_topic quiz_questions g1 of
             Inl e \<Rightarrow> Inl e
           | Inr (interleaved_quiz, g2) \<Rightarrow>
               (let final_quiz = take QUIZ_LENGTH interleaved_quiz
                in case save_quiz_metadata db1 student_id False quiz_count phase
                          final_quiz now of
                     Inl e \<Rightarrow> Inl e
                   | Inr db2 \<Rightarrow>
                       Inr (final_quiz,
                            update_student db2 student_id (finish_quiz now phase),
                            g2))))"

definition generate_normal_quiz ::
    "Database \<Rightarrow> string \<Rightarrow> StudentProfile \<Rightarrow> nat \<Rightarrow> int \<Rightarrow> rng
       \<Rightarrow> py_error + Question list \<times> Database \<times> rng" where
  "generate_normal_quiz db student_id student_data quiz_count now g =
     (let recent_questions_30d =
            get_recent_questions db student_id now RECENT_QUESTIONS_WINDOW_DAYS;
          (phase, exploration_ratio) = learning_phase_and_ratio quiz_count;
          db1 = mark_phase_transition db student_id student_data quiz_count
      in compose_quiz db1 student_id student_data quiz_count phase exploration_ratio
           recent_questions_30d now g)"

text \<open>
  \<open>generate_daily_quiz\<close>. The optional argument is \<open>None\<close> or the number of completed
  quizzes. A missing student document reads as \<open>None\<close>: \<open>student_data.get\<close> raises
  AttributeError and \<open>student_data['theta_by_topic']\<close> raises TypeError. One clock
  reading serves the whole call. The result is the quiz, the database after the call and
  the rest of the random source.
\<close>

definition generate_daily_quiz ::
    "Database \<Rightarrow> string \<Rightarrow> nat option \<Rightarrow> int \<Rightarrow> rng
       \<Rightarrow> py_error + Question list \<times> Database \<times> rng" where
  "generate_daily_quiz db student_id quiz_count_arg now g =
     (case students db student_id of
        None \<Rightarrow> (if quiz_count_arg = None then Inl AttributeError else Inl TypeError)
      | Some student_data \<Rightarrow>
          (let quiz_count =
                 (case quiz_count_arg of
                    None \<Rightarrow> completed_quiz_count student_data
                  | Some n \<Rightarrow> n)
           in if check_circuit_breaker db student_id
              then
                (case generate_recovery_quiz db student_id student_data now g of
                   Inl e \<Rightarrow> Inl e
                 | Inr (recovery_quiz, db1, g1) \<Rightarrow>
                     Inr (recovery_quiz,
                          update_student db1 student_id (finish_quiz now ''recovery''), g1))
              else generate_normal_quiz db student_id student_data quiz_count now g))"





definition switched_at :: "Database \<Rightarrow> string \<Rightarrow> nat option" where
  "switched_at db student_id =
     (case students db student_id of None \<Rightarrow> None | Some s \<Rightarrow> phase_switched_at_quiz s)"

section \<open>Example data\<close>

definition mk_question :: "string \<Rightarrow> string \<Rightarrow> real \<Rightarrow> real \<Rightarrow> real \<Rightarrow> Question" where
  "mk_question qid t b a c =
     \<lparr> question_id = qid, topic = t,
       irt_parameters = \<lparr> difficulty_b = b, discrimination_a = a, guessing_c = c \<rparr> \<rparr>"

definition mk_response :: "string \<Rightarrow> string \<Rightarrow> bool \<Rightarrow> int \<Rightarrow> StudentResponse" where
  "mk_response qid t correct answered =
     \<lparr> r_question_id = qid, r_topic = t, is_correct = correct, time_taken_seconds = 60,
       theta_before = 0, theta_after = 0, r_theta_delta = 0, confidence_SE_before = 1 / 2,
       confidence_SE_after = 1 / 2, answered_at = answered \<rparr>"

definition mk_topic_theta :: "real \<Rightarrow> nat \<Rightarrow> TopicTheta" where
  "mk_topic_theta th n =
     \<lparr> theta = th, percentile = 50, confidence_SE = 1 / 2, attempts = n,
       accuracy = None, last_updated = None \<rparr>"

definition mk_profile :: "(string \<times> TopicTheta) list \<Rightarrow> nat \<Rightarrow> StudentProfile" where
  "mk_profile tbt quiz_count =
     \<lparr> theta_by_topic = tbt, overall_theta = Some 0, overall_percentile = 50,
       assessment_completed_at = 0, completed_quiz_count = quiz_count,
       profile_current_day = 0, learning_phase = ''exploration'',
       phase_switched_at_quiz = None, total_questions_solved = 0,
       topic_attempt_counts = map (\<lambda>(t, tt). (t, attempts tt)) tbt,
       subject_balance = [], topics_explored = length tbt,
       topics_confident = length (filter (\<lambda>(t, tt). attempts tt \<ge> 2) tbt),
       last_quiz_completed_at = None \<rparr>"

definition mk_database ::
    "Question list \<Rightarrow> StudentProfile \<Rightarrow> StudentResponse list \<Rightarrow> Database" where
  "mk_database qs profile response_log =
     \<lparr> questions = qs,
       students = (\<lambda>sid. if sid = ''s1'' then Some profile else None),
       student_responses = (\<lambda>sid. if sid = ''s1'' then response_log else []),
       quizzes = [], system_events = [] \<rparr>"

text \<open>Five wrong answers in a row, one second apart, the last at time 5.\<close>

definition five_failures :: "StudentResponse list" where
  "five_failures =
     [mk_response ''R1'' ''T'' False 1, mk_response ''R2'' ''T'' False 2,
      mk_response ''R3'' ''T'' False 3, mk_response ''R4'' ''T'' False 4,
      mk_response ''R5'' ''T'' False 5]"

text \<open>
  The invariant of the interleaving loop: the keys of \<open>topic_groups\<close> are distinct, a
  group holds questions of its own topic only, and the remaining topics are the keys
  whose group is not empty, each once.
\<close>

definition groups_inv :: "(string \<times> Question list) list \<Rightarrow> string list \<Rightarrow> bool" where
  "groups_inv topic_groups remaining =
     (distinct (map fst topic_groups) \<and> distinct remaining \<and>
      set remaining = {t. \<exists>grp. map_of topic_groups t = Some grp \<and> grp \<noteq> []} \<and>
      (\<forall>t grp. map_of topic_groups t = Some grp \<longrightarrow> (\<forall>q \<in> set grp. topic q = t)))"

text \<open>
  On the topics of a list of questions: \<open>has_repeat\<close> says that two neighbours are
  equal, \<open>tail_only\<close> that wherever two neighbours are equal, every later entry is
  equal to them as well.
\<close>

definition tail_only :: "string list \<Rightarrow> bool" where
  "tail_only ts = (\<forall>i j. Suc i < length ts \<and> ts ! i = ts ! Suc i \<and> i \<le> j \<and> j < length ts
                     \<longrightarrow> ts ! j = ts ! i)"

definition has_repeat :: "string list \<Rightarrow> bool" where
  "has_repeat ts = (\<exists>i. Suc i < length ts \<and> ts ! i = ts ! Suc i)"

definition groups_ok :: "(string \<times> Question list) list \<Rightarrow> bool" where
  "groups_ok topic_groups = groups_inv topic_groups (map fst topic_groups)"

text \<open>
  Databases for the circuit breaker (three wrong answers; a correct answer followed by
  five wrong ones) and for the item selector (one item outside the difficulty window and
  one inside it with a low discrimination; that second item alone; two items that pass
  the strict filter).
\<close>

definition db_three_failures :: Database where
  "db_three_failures = mk_database [] (mk_profile [] 0) (take 3 five_failures)"

definition db_six_answers :: Database where
  "db_six_answers = mk_database [] (mk_profile [] 0) (mk_response ''R0'' ''T'' True 0 # five_failures)"

definition db_selector :: Database where
  "db_selector = mk_database [mk_question ''Q2'' ''T'' 2 2 0, mk_question ''Q1'' ''T'' 1 1 0]
     (mk_profile [] 0) []"

definition db_selector_single :: Database where
  "db_selector_single = mk_database [mk_question ''Q1'' ''T'' 1 1 0] (mk_profile [] 0) []"

definition db_selector_strict :: Database where
  "db_selector_strict =
     mk_database [mk_question ''Q1'' ''T'' 1 (3 / 2) 0, mk_question ''Q2'' ''T'' 2 2 0]
       (mk_profile [] 0) []"

text \<open>
  What a call of \<open>generate_daily_quiz\<close> hands to its caller: the quiz, or the exception.
\<close>

definition emitted_quiz ::
    "py_error + Question list \<times> Database \<times> rng \<Rightarrow> py_error + Question list" where
  "emitted_quiz r = (case r of Inl e \<Rightarrow> Inl e | Inr (quiz, db', g') \<Rightarrow> Inr quiz)"

text \<open>
  A student in the exploitation phase with one tested topic and one question of that
  topic in the catalogue; the same with a topic of the weight table; and a student with
  five wrong answers in a row at quiz 14.
\<close>

definition db_one_question :: Database where
  "db_one_question =
     mk_database [mk_question ''Q1'' ''T'' 1 (3 / 2) 0]
       (mk_profile [(''T'', mk_topic_theta 1 3)] 14) []"



definition emitted_ids ::
    "py_error + Question list \<times> Database \<times> rng \<Rightarrow> py_error + string list" where
  "emitted_ids r =
     (case r of Inl e \<Rightarrow> Inl e | Inr (quiz, db', g') \<Rightarrow> Inr (map question_id quiz))"

text \<open>
  A student with four tested topics, weakest first, at day 20 after the assessment. The
  catalogue has two easy questions for each topic, a medium one for each of the two
  weakest topics, and a hard question V1 of the weakest topic, which the student
  answered correctly 10 days ago. The five newest answers are wrong.
\<close>

definition db_recovery :: Database where
  "db_recovery =
     mk_database
       [mk_question ''E1A'' ''T1'' (1 / 2) 1 0, mk_question ''E1B'' ''T1'' (1 / 2) 1 0,
        mk_question ''E2A'' ''T2'' (1 / 2) 1 0, mk_question ''E2B'' ''T2'' (1 / 2) 1 0,
        mk_question ''E3A'' ''T3'' (1 / 2) 1 0, mk_question ''E3B'' ''T3'' (1 / 2) 1 0,
        mk_question ''E4A'' ''T4'' (1 / 2) 1 0, mk_question ''E4B'' ''T4'' (1 / 2) 1 0,
        mk_question ''M1'' ''T1'' (9 / 10) 1 0, mk_question ''M2'' ''T2'' (9 / 10) 1 0,
        mk_question ''V1'' ''T1'' 2 1 0]
       (mk_profile
          [(''T1'', mk_topic_theta (- 2) 5), (''T2'', mk_topic_theta (- 3 / 2) 5),
           (''T3'', mk_topic_theta (- 1) 5), (''T4'', mk_topic_theta (- 1 / 2) 5)] 3)
       [mk_response ''V1'' ''T1'' True 864000,
        mk_response ''R1'' ''T1'' False 1727991, mk_response ''R2'' ''T1'' False 1727992,
        mk_response ''R3'' ''T1'' False 1727993, mk_response ''R4'' ''T1'' False 1727994,
        mk_response ''R5'' ''T1'' False 1727995]"

text \<open>
  The student's document after the branch on the quiz count: the phase transition is
  marked with the quiz count when that is 14 or more and no mark is there yet.
\<close>

definition switch_mark :: "nat \<Rightarrow> StudentProfile \<Rightarrow> StudentProfile" where
  "switch_mark q sd =
     (if q < 14 \<or> phase_switched_at_quiz sd \<noteq> None then sd
      else sd \<lparr> phase_switched_at_quiz := Some q \<rparr>)"

section \<open>Properties of the IRT kernel\<close>

lemma logistic_bounds:
  assumes "0 \<le> c" "c < 1"
  shows "c < c + (1 - c) / (1 + exp (x::real))" "c + (1 - c) / (1 + exp x) < 1"
proof -
  have e: "0 < exp x" by simp
  have d: "0 < (1 - c) / (1 + exp x)" using assms e by (simp add: add_pos_pos)
  show "c < c + (1 - c) / (1 + exp x)" using d by simp
  have "(1 - c) / (1 + exp x) < (1 - c) / 1"
    using assms e by (intro divide_strict_left_mono) (auto simp: add_pos_pos)
  then show "c + (1 - c) / (1 + exp x) < 1" by simp
qed

lemma logistic_mono:
  assumes "c < 1" "y \<le> (x::real)"
  shows "c + (1 - c) / (1 + exp x) \<le> c + (1 - c) / (1 + exp y)"
proof -
  have "exp y \<le> exp x" using assms by simp
  then have "(1 - c) / (1 + exp x) \<le> (1 - c) / (1 + exp y)"
    using assms by (intro divide_left_mono) (auto simp: add_pos_pos)
  then show ?thesis by simp
qed

lemma prob_logistic_branch:
  assumes "0 \<le> c" "c < 1" "\<not> - a * (th - b) > 20" "\<not> - a * (th - b) < - 20"
  shows "calculate_probability_3PL th b a c = c + (1 - c) / (1 + exp (- a * (th - b)))"
  using assms logistic_bounds[OF assms(1,2), of "- a * (th - b)"]
  by (simp add: calculate_probability_3PL_def Let_def)

lemma prob_bounds:
  assumes "0 \<le> c" "c < 1"
  shows "c \<le> calculate_probability_3PL th b a c" "calculate_probability_3PL th b a c \<le> 1"
  using assms logistic_bounds[OF assms, of "- a * (th - b)"]
  by (auto simp: calculate_probability_3PL_def Let_def)

lemma prob_mono:
  assumes "0 < a" "0 \<le> c" "c < 1" "th \<le> th'"
  shows "calculate_probability_3PL th b a c \<le> calculate_probability_3PL th' b a c"
proof -
  let ?x = "- a * (th - b)" and ?y = "- a * (th' - b)"
  have xy: "?y \<le> ?x" using assms by (simp add: mult_left_mono)
  consider "?x > 20" | "?y < - 20" | "\<not> ?x > 20" "\<not> ?y < - 20" by blast
  then show ?thesis
  proof cases
    case 1
    then have "calculate_probability_3PL th b a c = c"
      by (simp add: calculate_probability_3PL_def)
    then show ?thesis using prob_bounds(1)[OF assms(2,3)] by simp
  next
    case 2
    then have "calculate_probability_3PL th' b a c = 1"
      by (simp add: calculate_probability_3PL_def)
    then show ?thesis using prob_bounds(2)[OF assms(2,3)] by simp
  next
    case 3
    then have "\<not> ?y > 20" "\<not> ?x < - 20" using xy by linarith+
    then show ?thesis
      using 3 prob_logistic_branch[OF assms(2,3)] logistic_mono[OF assms(3) xy] by simp
  qed
qed

lemma prob_less_one:
  assumes "0 < a" "0 \<le> c" "c < 1" "th < b"
  shows "calculate_probability_3PL th b a c < 1"
proof -
  have "0 < - a * (th - b)" using assms by (simp add: mult_pos_neg)
  then have nb: "\<not> - a * (th - b) < - 20" by linarith
  show ?thesis
  proof (cases "- a * (th - b) > 20")
    case True
    then show ?thesis using assms by (simp add: calculate_probability_3PL_def)
  next
    case False
    then show ?thesis
      using prob_logistic_branch[OF assms(2,3) False nb] logistic_bounds(2)[OF assms(2,3)]
      by simp
  qed
qed

lemma prob_pos:
  assumes "0 \<le> c" "c < 1" "0 < c \<or> a * (b - th) \<le> 20"
  shows "0 < calculate_probability_3PL th b a c"
proof (cases "0 < c")
  case True
  then show ?thesis using prob_bounds(1)[OF assms(1,2), of th b a] by linarith
next
  case False
  then have le: "\<not> - a * (th - b) > 20" using assms(3) by (simp add: algebra_simps)
  show ?thesis
  proof (cases "- a * (th - b) < - 20")
    case True
    then show ?thesis by (simp add: calculate_probability_3PL_def)
  next
    case False
    then show ?thesis
      using prob_logistic_branch[OF assms(1,2) le False]
        logistic_bounds(1)[OF assms(1,2), of "- a * (th - b)"] assms(1)
      by linarith
  qed
qed

text \<open>
  Claim C9. For a positive discrimination and a guessing floor in \<open>[0, 1)\<close> the
  response probability lies between the guessing floor and 1, and it does not decrease
  when theta grows, whichever of the three branches (the two overflow cut-offs and the
  logistic formula) the two evaluations take.
\<close>

theorem probability_3PL_range_monotone:
  "0 < a \<Longrightarrow> 0 \<le> c \<Longrightarrow> c < 1 \<Longrightarrow>
     c \<le> calculate_probability_3PL th b a c \<and> calculate_probability_3PL th b a c \<le> 1 \<and>
     (\<forall>th'. th \<le> th' \<longrightarrow>
        calculate_probability_3PL th b a c \<le> calculate_probability_3PL th' b a c)"
  using prob_bounds prob_mono by blast

theorem probability_3PL_range_monotone_witness:
  "(0::real) < 3/2 \<and> (0::real) \<le> 1/4 \<and> (1/4::real) < 1 \<and> (1/2::real) \<le> 7/10 \<and>
   1/4 \<le> calculate_probability_3PL (1/2) 1 (3/2) (1/4) \<and>
   calculate_probability_3PL (1/2) 1 (3/2) (1/4) \<le> 1 \<and>
   calculate_probability_3PL (1/2) 1 (3/2) (1/4) \<le> calculate_probability_3PL (7/10) 1 (3/2) (1/4)"
  using probability_3PL_range_monotone[of "3/2" "1/4" "1/2" 1] by simp

section \<open>Properties of the theta update\<close>

lemma learning_rate_pos: "0 < learning_rate n"
  by (simp add: learning_rate_def BASE_LEARNING_RATE_def LEARNING_RATE_DECAY_def add_pos_nonneg)

lemma learning_rate_strict_antimono: "n < m \<Longrightarrow> learning_rate m < learning_rate n"
  unfolding learning_rate_def BASE_LEARNING_RATE_def LEARNING_RATE_DECAY_def
  by (intro divide_strict_left_mono) (auto simp: add_pos_nonneg)

lemma theta_delta_abs:
  assumes "0 \<le> guessing_c irt" "guessing_c irt < 1"
  shows "\<bar>theta_delta th n irt ok\<bar> = learning_rate n *
     (if ok then 1 - calculate_probability_3PL th (difficulty_b irt) (discrimination_a irt) (guessing_c irt)
      else calculate_probability_3PL th (difficulty_b irt) (discrimination_a irt) (guessing_c irt))"
proof -
  let ?P = "calculate_probability_3PL th (difficulty_b irt) (discrimination_a irt) (guessing_c irt)"
  have "0 \<le> ?P"
    using prob_bounds(1)[OF assms, of th "difficulty_b irt" "discrimination_a irt"] assms(1) by linarith
  moreover have "?P \<le> 1" using prob_bounds(2)[OF assms] by simp
  ultimately show ?thesis
    using learning_rate_pos[of n] by (simp add: theta_delta_def Let_def abs_mult)
qed

text \<open>
  Claim C5, as amended. A correct response on an item harder than the current theta
  moves theta up. An incorrect response never moves theta up, and moves it down strictly
  when the guessing floor is positive or the exponent \<open>a (b - theta)\<close> is within the
  overflow cut-off of 20; beyond the cut-off with \<open>c = 0\<close> the probability is the
  guessing floor 0 and the delta is 0. For a fixed theta, item and correctness the
  magnitude of a non-zero delta is strictly decreasing in the number of attempts.
\<close>

theorem theta_delta_sign_and_decay:
  "0 < discrimination_a irt \<Longrightarrow> 0 \<le> guessing_c irt \<Longrightarrow> guessing_c irt < 1 \<Longrightarrow>
     (th < difficulty_b irt \<longrightarrow> 0 < theta_delta th n irt True) \<and>
     theta_delta th n irt False \<le> 0 \<and>
     (0 < guessing_c irt \<or> discrimination_a irt * (difficulty_b irt - th) \<le> 20
        \<longrightarrow> theta_delta th n irt False < 0) \<and>
     (\<forall>m ok. n < m \<and> theta_delta th n irt ok \<noteq> 0
        \<longrightarrow> \<bar>theta_delta th m irt ok\<bar> < \<bar>theta_delta th n irt ok\<bar>)"
proof -
  assume a: "0 < discrimination_a irt" and c0: "0 \<le> guessing_c irt" and c1: "guessing_c irt < 1"
  let ?P = "calculate_probability_3PL th (difficulty_b irt) (discrimination_a irt) (guessing_c irt)"
  have P0: "0 \<le> ?P" using prob_bounds(1)[OF c0 c1, of th "difficulty_b irt" "discrimination_a irt"] c0
    by linarith
  have 1: "th < difficulty_b irt \<longrightarrow> 0 < theta_delta th n irt True"
    using prob_less_one[OF a c0 c1] learning_rate_pos[of n] by (simp add: theta_delta_def)
  have 2: "theta_delta th n irt False \<le> 0"
    using P0 learning_rate_pos[of n] by (simp add: theta_delta_def mult_nonneg_nonneg)
  have 3: "0 < guessing_c irt \<or> discrimination_a irt * (difficulty_b irt - th) \<le> 20
        \<longrightarrow> theta_delta th n irt False < 0"
    using prob_pos[OF c0 c1] learning_rate_pos[of n] by (simp add: theta_delta_def)
  have 4: "\<bar>theta_delta th m irt ok\<bar> < \<bar>theta_delta th n irt ok\<bar>"
    if "n < m" "theta_delta th n irt ok \<noteq> 0" for m ok
  proof -
    let ?f = "if ok then 1 - ?P else ?P"
    have "\<bar>theta_delta th n irt ok\<bar> = learning_rate n * ?f"
      and m: "\<bar>theta_delta th m irt ok\<bar> = learning_rate m * ?f"
      using theta_delta_abs[OF c0 c1] by simp_all
    moreover have "0 \<le> ?f" using P0 prob_bounds(2)[OF c0 c1, of th "difficulty_b irt" "discrimination_a irt"] by simp
    moreover have "?f \<noteq> 0" using that(2) by (auto simp: theta_delta_def split: if_splits)
    ultimately show ?thesis
      using learning_rate_strict_antimono[OF that(1)] by (simp add: mult_strict_right_mono)
  qed
  show ?thesis using 1 2 3 4 by blast
qed

theorem theta_delta_sign_and_decay_witness:
  "(0::real) < 3/2 \<and> (0::real) \<le> 1/4 \<and> (1/4::real) < 1 \<and> (1/2::real) < 1 \<and> (0::nat) < 1 \<and>
   0 < theta_delta (1/2) 0 \<lparr>difficulty_b = 1, discrimination_a = 3/2, guessing_c = 1/4\<rparr> True \<and>
   theta_delta (1/2) 0 \<lparr>difficulty_b = 1, discrimination_a = 3/2, guessing_c = 1/4\<rparr> False < 0 \<and>
   \<bar>theta_delta (1/2) 1 \<lparr>difficulty_b = 1, discrimination_a = 3/2, guessing_c = 1/4\<rparr> True\<bar>
     < \<bar>theta_delta (1/2) 0 \<lparr>difficulty_b = 1, discrimination_a = 3/2, guessing_c = 1/4\<rparr> True\<bar>"
proof -
  let ?irt = "\<lparr>difficulty_b = 1, discrimination_a = 3/2, guessing_c = 1/4\<rparr>"
  have h: "0 < discrimination_a ?irt" "0 \<le> guessing_c ?irt" "guessing_c ?irt < 1" by simp_all
  note t = theta_delta_sign_and_decay[OF h, of "1/2" 0]
  have p: "0 < theta_delta (1/2) 0 ?irt True" using t by simp
  have n: "theta_delta (1/2) 0 ?irt False < 0" using t by simp
  have "\<bar>theta_delta (1/2) 1 ?irt True\<bar> < \<bar>theta_delta (1/2) 0 ?irt True\<bar>"
    using t p by (metis less_numeral_extra(1) less_irrefl)
  then show ?thesis using p n by simp
qed

text \<open>
  Claim C5 as stated fails: for the item \<open>b = 2.6, a = 10, c = 0\<close> and theta 0
  the exponent is 26, the probability is the guessing floor 0, and an incorrect response
  leaves theta where it is, after no attempt as after one: the delta is not negative,
  and its magnitude does not decrease.
\<close>

theorem theta_delta_incorrect_counterexample:
  "(0::real) < 10 \<and> (0::real) \<le> 0 \<and> (0::real) < 1 \<and> (0::real) < 13/5 \<and>
   \<not> theta_delta 0 0 \<lparr>difficulty_b = 13/5, discrimination_a = 10, guessing_c = 0\<rparr> False < 0 \<and>
   \<not> \<bar>theta_delta 0 1 \<lparr>difficulty_b = 13/5, discrimination_a = 10, guessing_c = 0\<rparr> False\<bar>
       < \<bar>theta_delta 0 0 \<lparr>difficulty_b = 13/5, discrimination_a = 10, guessing_c = 0\<rparr> False\<bar>"
  by (simp add: theta_delta_def calculate_probability_3PL_def)

text \<open>
  Claim C10. \<open>calculate_initial_SE\<close> returns a value exactly when the number of
  questions is at least 1; with 0 questions the division raises ZeroDivisionError; and
  for at least one question and an accuracy in \<open>[0, 1]\<close> the value returned lies in
  \<open>[0.1, 0.6]\<close>.
\<close>

theorem calculate_initial_SE_total_iff:
  "calculate_initial_SE 0 acc = Inl ZeroDivisionError \<and>
   ((\<exists>v. calculate_initial_SE n acc = Inr v) \<longleftrightarrow> 1 \<le> n) \<and>
   (1 \<le> n \<and> 0 \<le> acc \<and> acc \<le> 1 \<longrightarrow>
      (\<exists>v. calculate_initial_SE n acc = Inr v \<and> 1/10 \<le> v \<and> v \<le> 6/10))"
  by (auto simp: calculate_initial_SE_def Let_def SE_FLOOR_def SE_CEILING_def min_def max_def)

theorem calculate_initial_SE_total_iff_witness:
  "calculate_initial_SE 0 (1/2) = Inl ZeroDivisionError \<and>
   (1::int) \<le> 4 \<and> (0::real) \<le> 1/2 \<and> (1/2::real) \<le> 1 \<and>
   (\<exists>v. calculate_initial_SE 4 (1/2) = Inr v \<and> 1/10 \<le> v \<and> v \<le> 6/10)"
  using calculate_initial_SE_total_iff[of "1/2" 4] by simp

lemma updated_in_bounds:
  assumes "theta_in_bounds tt"
  shows "theta_in_bounds (updated_topic_theta cdf now tt irt ok)"
    and "confidence_SE (updated_topic_theta cdf now tt irt ok) \<le> confidence_SE tt"
  using assms
  by (simp_all add: theta_in_bounds_def updated_topic_theta_def Let_def bound_theta_def
      THETA_MIN_def THETA_MAX_def SE_FLOOR_def SE_CEILING_def SE_REDUCTION_RATE_def
      min_def max_def)

text \<open>
  Claim C4. Starting from a topic record with theta in \<open>[-3, 3]\<close> and standard
  error in \<open>[0.1, 0.6]\<close>, every record written by a sequence of updates has theta and
  standard error within the same bounds, and a standard error no larger than the one
  the sequence started from.
\<close>

theorem update_sequence_bounds:
  "theta_in_bounds tt \<Longrightarrow>
     \<forall>tt' \<in> set (update_sequence cdf tt calls).
        theta_in_bounds tt' \<and> confidence_SE tt' \<le> confidence_SE tt"
proof (induction calls arbitrary: tt)
  case Nil
  then show ?case by simp
next
  case (Cons call calls)
  obtain now irt ok where call: "call = (now, irt, ok)" by (cases call) auto
  let ?tt' = "updated_topic_theta cdf now tt irt ok"
  have b: "theta_in_bounds ?tt'" and s: "confidence_SE ?tt' \<le> confidence_SE tt"
    using updated_in_bounds[OF Cons.prems] by simp_all
  from Cons.IH[OF b] s show ?case
    using b by (auto simp: call Let_def)
qed

theorem update_sequence_bounds_witness:
  "theta_in_bounds
     \<lparr>theta = 1/2, percentile = 69, confidence_SE = 1/2, attempts = 0,
      accuracy = None, last_updated = None\<rparr> \<and>
   theta_in_bounds (hd (update_sequence (\<lambda>x. x)
     \<lparr>theta = 1/2, percentile = 69, confidence_SE = 1/2, attempts = 0,
      accuracy = None, last_updated = None\<rparr>
     [(1, \<lparr>difficulty_b = 7/5, discrimination_a = 8/5, guessing_c = 1/4\<rparr>, True)])) \<and>
   confidence_SE (hd (update_sequence (\<lambda>x. x)
     \<lparr>theta = 1/2, percentile = 69, confidence_SE = 1/2, attempts = 0,
      accuracy = None, last_updated = None\<rparr>
     [(1, \<lparr>difficulty_b = 7/5, discrimination_a = 8/5, guessing_c = 1/4\<rparr>, True)])) \<le> 1/2"
proof -
  let ?tt = "\<lparr>theta = 1/2, percentile = 69, confidence_SE = 1/2, attempts = 0,
      accuracy = None, last_updated = None\<rparr>"
  have h: "theta_in_bounds ?tt"
    by (simp add: theta_in_bounds_def THETA_MIN_def THETA_MAX_def SE_FLOOR_def SE_CEILING_def)
  show ?thesis
    using h update_sequence_bounds[OF h, of "\<lambda>x. x"
        "[(1, \<lparr>difficulty_b = 7/5, discrimination_a = 8/5, guessing_c = 1/4\<rparr>, True)]"]
    by (simp add: Let_def)
qed

section \<open>Properties of the circuit breaker\<close>

lemma count_consecutive_failures_eq:
  "count_consecutive_failures rs n = n + length (takeWhile (\<lambda>r. \<not> is_correct r) rs)"
  by (induction rs arbitrary: n) auto

text \<open>
  Claim C6. \<open>check_circuit_breaker\<close> returns true exactly when, among the 10 most
  recent responses taken newest first, the run of incorrect answers starting at the
  newest has length at least 5; with fewer than 5 responses in the log it returns false.
\<close>

theorem check_circuit_breaker_iff_rule:
  "check_circuit_breaker db student_id = circuit_breaker_rule (student_responses db student_id) \<and>
   (length (student_responses db student_id) < 5 \<longrightarrow> \<not> check_circuit_breaker db student_id)"
proof -
  let ?rs = "take 10 (order_by_answered_at_desc (student_responses db student_id))"
  have "length (takeWhile (\<lambda>r. \<not> is_correct r) ?rs) \<le> length ?rs"
    by (rule length_takeWhile_le)
  then have 1: "check_circuit_breaker db student_id = circuit_breaker_rule (student_responses db student_id)"
    unfolding check_circuit_breaker_def circuit_breaker_rule_def Let_def
      count_consecutive_failures_eq CIRCUIT_BREAKER_THRESHOLD_def
    by auto
  have "length ?rs \<le> length (student_responses db student_id)"
    by (simp add: order_by_answered_at_desc_def)
  then have 2: "length (student_responses db student_id) < 5 \<longrightarrow> \<not> check_circuit_breaker db student_id"
    unfolding check_circuit_breaker_def Let_def CIRCUIT_BREAKER_THRESHOLD_def by auto
  show ?thesis using 1 2 by blast
qed

theorem check_circuit_breaker_iff_rule_witness:
  "length (student_responses db_three_failures ''s1'') < 5 \<and>
   \<not> check_circuit_breaker db_three_failures ''s1'' \<and>
   check_circuit_breaker db_six_answers ''s1'' \<and>
   circuit_breaker_rule (student_responses db_six_answers ''s1'')"
proof -
  have len: "length (student_responses db_three_failures ''s1'') < 5"
    by (simp add: db_three_failures_def mk_database_def)
  have rule: "circuit_breaker_rule (student_responses db_six_answers ''s1'')"
    by (simp add: db_six_answers_def mk_database_def five_failures_def circuit_breaker_rule_def
        order_by_answered_at_desc_def mk_response_def)
  show ?thesis
    using len rule check_circuit_breaker_iff_rule[of db_three_failures "''s1''"]
      check_circuit_breaker_iff_rule[of db_six_answers "''s1''"] by blast
qed

section \<open>Properties of the interleaving\<close>

lemma randbelow_less: "0 < n \<Longrightarrow> fst (randbelow n g) < n"
  by (cases g) auto

lemma random_choice_mem: "xs \<noteq> [] \<Longrightarrow> fst (random_choice xs g) \<in> set xs"
  using randbelow_less[of "length xs" g]
  by (auto simp: random_choice_def split: prod.splits)

lemma map_of_update: "map_of (AList.update k v al) = (map_of al)(k \<mapsto> v)"
  by (rule ext) (simp add: update_conv')

lemma groups_inv_pop:
  assumes "groups_inv topic_groups remaining" "map_of topic_groups t = Some (q # rest)"
  shows "groups_inv (AList.update t rest topic_groups)
           (if rest = [] then remove1 t remaining else remaining)"
    and "topic q = t" and "t \<in> set remaining"
proof -
  show "topic q = t" using assms by (auto simp: groups_inv_def)
  show "t \<in> set remaining" using assms by (auto simp: groups_inv_def)
  show "groups_inv (AList.update t rest topic_groups)
           (if rest = [] then remove1 t remaining else remaining)"
    using assms unfolding groups_inv_def map_of_update
    by (auto simp: set_remove1_eq distinct_update split: if_splits)
qed

lemma mset_groups_pop:
  "map_of topic_groups t = Some (q # rest) \<Longrightarrow>
     mset (concat (map snd (AList.update t rest topic_groups))) + {#q#}
       = mset (concat (map snd topic_groups))"
  by (induction topic_groups) (auto split: if_splits)

lemma tail_only_snoc_diff:
  assumes "\<not> has_repeat ts" "ts = [] \<or> last ts \<noteq> t"
  shows "\<not> has_repeat (ts @ [t])"
proof
  assume "has_repeat (ts @ [t])"
  then obtain i where i: "Suc i < length (ts @ [t])" "(ts @ [t]) ! i = (ts @ [t]) ! Suc i"
    by (auto simp: has_repeat_def)
  show False
  proof (cases "Suc i < length ts")
    case True
    then show ?thesis using i assms(1) by (auto simp: has_repeat_def nth_append)
  next
    case False
    then have "Suc i = length ts" using i by simp
    then have "ts \<noteq> []" and "length ts - 1 = i" by auto
    then have "last ts = ts ! i" by (simp add: last_conv_nth)
    then show ?thesis using i assms(2) \<open>Suc i = length ts\<close> by (auto simp: nth_append)
  qed
qed

lemma no_repeat_tail_only: "\<not> has_repeat ts \<Longrightarrow> tail_only ts"
  by (auto simp: has_repeat_def tail_only_def)

lemma tail_only_snoc_same:
  assumes "tail_only ts" "ts \<noteq> []" "last ts = t"
  shows "tail_only (ts @ [t])"
  unfolding tail_only_def
proof (intro allI impI, elim conjE)
  fix i j
  assume i: "Suc i < length (ts @ [t])" and eq: "(ts @ [t]) ! i = (ts @ [t]) ! Suc i"
    and ij: "i \<le> j" and j: "j < length (ts @ [t])"
  have ilt: "i < length ts" using i by simp
  show "(ts @ [t]) ! j = (ts @ [t]) ! i"
  proof (cases "Suc i < length ts")
    case True
    then have eq': "ts ! i = ts ! Suc i" using eq by (simp add: nth_append)
    have all: "ts ! k = ts ! i" if "i \<le> k" "k < length ts" for k
      using assms(1) True eq' that unfolding tail_only_def by blast
    have "last ts = ts ! i" using all[of "length ts - 1"] True assms(2)
      by (simp add: last_conv_nth)
    then show ?thesis using all[of j] ij j ilt assms(3)
      by (cases "j < length ts") (auto simp: nth_append)
  next
    case False
    then have "Suc i = length ts" using i by simp
    then show ?thesis using ij j eq ilt
      by (cases "j = i") (auto simp: nth_append)
  qed
qed

lemma groups_all_empty:
  assumes "groups_inv topic_groups []"
  shows "concat (map snd topic_groups) = []"
proof -
  have "grp = []" if "(t, grp) \<in> set topic_groups" for t grp
  proof -
    have "map_of topic_groups t = Some grp"
      using that assms by (simp add: groups_inv_def)
    then show ?thesis using assms by (auto simp: groups_inv_def)
  qed
  then show ?thesis by auto
qed

lemma interleave_loop_result:
  assumes "groups_inv topic_groups remaining"
    and "tail_only (map topic interleaved)"
    and "has_repeat (map topic interleaved) \<longrightarrow> set remaining \<subseteq> {topic (last interleaved)}"
  shows "\<exists>out g'. interleave_loop topic_groups remaining interleaved g = Inr (out, g') \<and>
           mset out = mset interleaved + mset (concat (map snd topic_groups)) \<and>
           tail_only (map topic out)"
  using assms
proof (induction topic_groups remaining interleaved g rule: interleave_loop.induct)
  case (1 topic_groups remaining interleaved g)
  show ?case
  proof (cases "remaining = []")
    case True
    then have "interleave_loop topic_groups remaining interleaved g = Inr (interleaved, g)"
      by (simp add: interleave_loop.simps)
    moreover have "concat (map snd topic_groups) = []"
      using True "1.prems"(1) groups_all_empty[of topic_groups] by simp
    ultimately show ?thesis using "1.prems"(2) by simp
  next
    case False
    define avail0 where "avail0 =
      (if interleaved \<noteq> [] then filter (\<lambda>t. t \<noteq> topic (last interleaved)) remaining
       else remaining)"
    define avail where "avail = (if avail0 = [] then remaining else avail0)"
    define t where "t = fst (random_choice avail g)"
    define g1 where "g1 = snd (random_choice avail g)"
    have rc: "(t, g1) = random_choice avail g" by (simp add: t_def g1_def)
    have ne: "avail \<noteq> []" using False by (simp add: avail_def)
    have sub: "set avail \<subseteq> set remaining" by (auto simp: avail_def avail0_def)
    have t_av: "t \<in> set avail" unfolding t_def by (rule random_choice_mem[OF ne])
    then have t_rem: "t \<in> set remaining" using sub by blast
    then obtain grp where grp: "map_of topic_groups t = Some grp" "grp \<noteq> []"
      using "1.prems"(1) by (auto simp: groups_inv_def)
    then obtain q rest where qr: "map_of topic_groups t = Some (q # rest)"
      by (cases grp) auto
    define remaining' where "remaining' = (if rest = [] then remove1 t remaining else remaining)"
    have inv': "groups_inv (AList.update t rest topic_groups) remaining'"
      and tq: "topic q = t"
      using groups_inv_pop[OF "1.prems"(1) qr] by (simp_all add: remaining'_def)
    have rem_sub: "set remaining' \<subseteq> set remaining"
      using set_remove1_subset[of t remaining] by (auto simp: remaining'_def)
    have step: "interleave_loop topic_groups remaining interleaved g =
        interleave_loop (AList.update t rest topic_groups) remaining' (interleaved @ [q]) g1"
      using False qr rc[symmetric]
      by (subst interleave_loop.simps)
         (simp add: Let_def avail_def[symmetric] avail0_def[symmetric] remaining'_def)
    have post: "tail_only (map topic (interleaved @ [q])) \<and>
        (has_repeat (map topic (interleaved @ [q])) \<longrightarrow>
           set remaining' \<subseteq> {topic (last (interleaved @ [q]))})"
    proof (cases "interleaved = [] \<or> topic (last interleaved) \<noteq> t")
      case True
      have nr: "\<not> has_repeat (map topic interleaved)"
      proof
        assume "has_repeat (map topic interleaved)"
        then have "set remaining \<subseteq> {topic (last interleaved)}"
          and "interleaved \<noteq> []"
          using "1.prems"(3) by (auto simp: has_repeat_def)
        then show False using t_rem True by auto
      qed
      have "\<not> has_repeat (map topic interleaved @ [t])"
        using True by (intro tail_only_snoc_diff[OF nr]) (auto simp: last_map)
      then show ?thesis using no_repeat_tail_only by (simp add: tq)
    next
      case same: False
      then have ine: "interleaved \<noteq> []" and lt: "topic (last interleaved) = t" by auto
      have "t \<notin> set avail0" using ine lt by (simp add: avail0_def)
      then have "avail0 = []" using t_av by (auto simp: avail_def split: if_splits)
      then have "set remaining \<subseteq> {t}"
        using ine lt by (auto simp: avail0_def filter_empty_conv)
      then have r: "set remaining' \<subseteq> {t}" using rem_sub by blast
      have "tail_only (map topic interleaved @ [t])"
        using "1.prems"(2) ine lt by (intro tail_only_snoc_same) (auto simp: last_map)
      then show ?thesis using r by (simp add: tq)
    qed
    have "\<exists>out g2. interleave_loop (AList.update t rest topic_groups) remaining'
              (interleaved @ [q]) g1 = Inr (out, g2) \<and>
           mset out = mset (interleaved @ [q])
             + mset (concat (map snd (AList.update t rest topic_groups))) \<and>
           tail_only (map topic out)"
      using "1.IH"[OF False refl refl refl rc[unfolded avail_def avail0_def] qr refl] inv' post
      unfolding remaining'_def by blast
    then obtain out g2 where
      res: "interleave_loop (AList.update t rest topic_groups) remaining'
              (interleaved @ [q]) g1 = Inr (out, g2)"
      and ms: "mset out = mset (interleaved @ [q])
             + mset (concat (map snd (AList.update t rest topic_groups)))"
      and tl: "tail_only (map topic out)"
      by blast
    have "mset out = mset interleaved + mset (concat (map snd topic_groups))"
      using ms mset_groups_pop[OF qr] by (simp add: add.assoc[symmetric])
    then show ?thesis using step res tl by simp
  qed
qed

lemma groups_ok_update:
  assumes "groups_ok topic_groups"
  shows "groups_ok (AList.update (topic q)
          ((case map_of topic_groups (topic q) of None \<Rightarrow> [] | Some grp \<Rightarrow> grp) @ [q])
          topic_groups)"
  using assms unfolding groups_ok_def groups_inv_def map_of_update
  by (auto simp: distinct_update update_keys map_of_eq_None_iff image_iff split: option.splits if_splits)

lemma mset_groups_push:
  "mset (concat (map snd (AList.update k
      ((case map_of topic_groups k of None \<Rightarrow> [] | Some grp \<Rightarrow> grp) @ [q]) topic_groups)))
     = mset (concat (map snd topic_groups)) + {#q#}"
  by (induction topic_groups) auto

lemma group_by_topic_ok:
  "groups_ok topic_groups \<Longrightarrow> groups_ok (group_by_topic qs topic_groups)"
  by (induction qs arbitrary: topic_groups) (auto simp: groups_ok_update)

lemma group_by_topic_mset:
  "mset (concat (map snd (group_by_topic qs topic_groups)))
     = mset (concat (map snd topic_groups)) + mset qs"
  by (induction qs arbitrary: topic_groups) (auto simp: mset_groups_push)

lemma interleave_result:
  "\<exists>out g'. interleave_questions_by_topic qs g = Inr (out, g') \<and> mset out = mset qs \<and>
      tail_only (map topic out)"
proof -
  have ok: "groups_inv (group_by_topic qs []) (map fst (group_by_topic qs []))"
    using group_by_topic_ok[of "[]" qs] by (simp add: groups_ok_def groups_inv_def)
  have "tail_only (map topic [])" "\<not> has_repeat (map topic [])"
    by (simp_all add: tail_only_def has_repeat_def)
  then show ?thesis
    using interleave_loop_result[OF ok, of "[]" g] group_by_topic_mset[of qs "[]"]
    by (simp add: interleave_questions_by_topic_def Let_def)
qed

text \<open>
  What the interleaver does ensure, for every list of questions and every random
  source: it returns a rearrangement of the questions, and two neighbours of the result
  share a topic only if every question after them has that topic too, the topic being
  the only one left.
\<close>

theorem interleave_adjacent_only_in_tail:
  "\<exists>out g'. interleave_questions_by_topic qs g = Inr (out, g') \<and> mset out = mset qs \<and>
      (\<forall>i j. Suc i < length out \<and> topic (out ! i) = topic (out ! Suc i) \<and> i \<le> j \<and> j < length out
         \<longrightarrow> topic (out ! j) = topic (out ! i))"
proof -
  obtain out g' where r: "interleave_questions_by_topic qs g = Inr (out, g')"
    "mset out = mset qs" "tail_only (map topic out)"
    using interleave_result[of qs g] by blast
  have "topic (out ! j) = topic (out ! i)"
    if "Suc i < length out" "topic (out ! i) = topic (out ! Suc i)" "i \<le> j" "j < length out"
    for i j
  proof -
    from r(3) have "Suc i < length (map topic out) \<and> map topic out ! i = map topic out ! Suc i
        \<and> i \<le> j \<and> j < length (map topic out) \<longrightarrow> map topic out ! j = map topic out ! i"
      unfolding tail_only_def by blast
    then show ?thesis using that by simp
  qed
  then show ?thesis using r(1,2) by blast
qed

theorem interleave_adjacent_only_in_tail_witness:
  "interleave_questions_by_topic
     [mk_question ''A1'' ''A'' 1 1 0, mk_question ''A2'' ''A'' 1 1 0,
      mk_question ''B1'' ''B'' 1 1 0, mk_question ''A3'' ''A'' 1 1 0] []
   = Inr ([mk_question ''A1'' ''A'' 1 1 0, mk_question ''B1'' ''B'' 1 1 0,
           mk_question ''A2'' ''A'' 1 1 0, mk_question ''A3'' ''A'' 1 1 0], []) \<and>
   (\<exists>out g'. interleave_questions_by_topic
       [mk_question ''A1'' ''A'' 1 1 0, mk_question ''A2'' ''A'' 1 1 0,
        mk_question ''B1'' ''B'' 1 1 0, mk_question ''A3'' ''A'' 1 1 0] [] = Inr (out, g') \<and>
      Suc 2 < length out \<and> topic (out ! 2) = topic (out ! Suc 2) \<and> topic (out ! 3) = topic (out ! 2))"
proof -
  let ?qs = "[mk_question ''A1'' ''A'' 1 1 0, mk_question ''A2'' ''A'' 1 1 0,
      mk_question ''B1'' ''B'' 1 1 0, mk_question ''A3'' ''A'' 1 1 0]"
  have run: "interleave_questions_by_topic ?qs []
   = Inr ([mk_question ''A1'' ''A'' 1 1 0, mk_question ''B1'' ''B'' 1 1 0,
           mk_question ''A2'' ''A'' 1 1 0, mk_question ''A3'' ''A'' 1 1 0], [])"
    by (simp add: interleave_questions_by_topic_def interleave_loop.simps random_choice_def
        mk_question_def Let_def)
  obtain out g' where r: "interleave_questions_by_topic ?qs [] = Inr (out, g')"
    and t: "\<forall>i j. Suc i < length out \<and> topic (out ! i) = topic (out ! Suc i) \<and> i \<le> j \<and> j < length out
         \<longrightarrow> topic (out ! j) = topic (out ! i)"
    using interleave_adjacent_only_in_tail[of ?qs "[]"] by blast
  have out: "out = [mk_question ''A1'' ''A'' 1 1 0, mk_question ''B1'' ''B'' 1 1 0,
           mk_question ''A2'' ''A'' 1 1 0, mk_question ''A3'' ''A'' 1 1 0]"
    using r run by simp
  have h: "Suc 2 < length out" "topic (out ! 2) = topic (out ! Suc 2)"
    by (simp_all add: out mk_question_def)
  from t have "Suc 2 < length out \<and> topic (out ! 2) = topic (out ! Suc 2) \<and> (2::nat) \<le> 3
      \<and> 3 < length out \<longrightarrow> topic (out ! 3) = topic (out ! 2)"
    by blast
  then have "topic (out ! 3) = topic (out ! 2)" using h by simp
  then show ?thesis using run r h by blast
qed

text \<open>
  Claim C8 fails on the code, against the docstring of the function (no two consecutive
  questions from the same topic). For two questions of topic A, one of B and one of C
  an order without equal neighbours exists, and the interleaver finds it when the random
  source picks the first available topic each time: A, B, A, C. When the random source
  picks B and then C, only A is left, and the two questions of A end up side by side.
\<close>

theorem interleave_repeats_where_avoidable:
  "interleave_questions_by_topic
     [mk_question ''A1'' ''A'' 1 1 0, mk_question ''A2'' ''A'' 1 1 0,
      mk_question ''B1'' ''B'' 1 1 0, mk_question ''C1'' ''C'' 1 1 0] [1, 1]
   = Inr ([mk_question ''B1'' ''B'' 1 1 0, mk_question ''C1'' ''C'' 1 1 0,
           mk_question ''A1'' ''A'' 1 1 0, mk_question ''A2'' ''A'' 1 1 0], []) \<and>
   topic (mk_question ''B1'' ''B'' 1 1 0) \<noteq> topic (mk_question ''C1'' ''C'' 1 1 0) \<and>
   topic (mk_question ''A1'' ''A'' 1 1 0) = topic (mk_question ''A2'' ''A'' 1 1 0) \<and>
   interleave_questions_by_topic
     [mk_question ''A1'' ''A'' 1 1 0, mk_question ''A2'' ''A'' 1 1 0,
      mk_question ''B1'' ''B'' 1 1 0, mk_question ''C1'' ''C'' 1 1 0] []
   = Inr ([mk_question ''A1'' ''A'' 1 1 0, mk_question ''B1'' ''B'' 1 1 0,
           mk_question ''A2'' ''A'' 1 1 0, mk_question ''C1'' ''C'' 1 1 0], []) \<and>
   topic (mk_question ''A1'' ''A'' 1 1 0) \<noteq> topic (mk_question ''B1'' ''B'' 1 1 0) \<and>
   topic (mk_question ''B1'' ''B'' 1 1 0) \<noteq> topic (mk_question ''A2'' ''A'' 1 1 0) \<and>
   topic (mk_question ''A2'' ''A'' 1 1 0) \<noteq> topic (mk_question ''C1'' ''C'' 1 1 0)"
  by (simp add: interleave_questions_by_topic_def interleave_loop.simps random_choice_def
      mk_question_def Let_def)

section \<open>Properties of the item selector\<close>

lemma py_max_by_mem: "py_max_by lt best xs \<in> set (best # xs)"
  by (induction xs arbitrary: best) auto

lemma py_max_by_ge_best:
  "(f best :: real) \<le> f (py_max_by (\<lambda>a b. f a < f b) best xs)"
proof (induction xs arbitrary: best)
  case Nil
  then show ?case by simp
next
  case (Cons y ys)
  have "f best \<le> f (if f best < f y then y else best)" by simp
  also have "\<dots> \<le> f (py_max_by (\<lambda>a b. f a < f b) (if f best < f y then y else best) ys)"
    by (rule Cons.IH)
  finally show ?case by simp
qed

lemma py_max_by_ge_rest:
  "x \<in> set xs \<Longrightarrow> (f x :: real) \<le> f (py_max_by (\<lambda>a b. f a < f b) best xs)"
proof (induction xs arbitrary: best)
  case Nil
  then show ?case by simp
next
  case (Cons y ys)
  show ?case
  proof (cases "x = y")
    case True
    have "f y \<le> f (if f best < f y then y else best)" by simp
    also have "\<dots> \<le> f (py_max_by (\<lambda>a b. f a < f b) (if f best < f y then y else best) ys)"
      by (rule py_max_by_ge_best)
    finally show ?thesis using True by simp
  next
    case False
    then have "x \<in> set ys" using Cons.prems by simp
    then show ?thesis using Cons.IH by simp
  qed
qed

lemma py_max_key_ge:
  "x \<in> set (best # xs) \<Longrightarrow> (f x :: real) \<le> f (py_max_key f best xs)"
  using py_max_by_ge_best[of f best xs] py_max_by_ge_rest[of x xs f best]
  by (auto simp: py_max_key_def)

text \<open>
  What the selector does ensure. When the strict filter (topic, not recent,
  discrimination at least the minimum, difficulty within 0.5 of the target) has
  candidates, the selector returns one of them, of largest Fisher information at the
  target theta; it returns nothing when the topic has no question outside the recent
  set; and whatever it returns is a question of the topic outside the recent set.
\<close>

theorem select_optimal_question_IRT_result:
  "(filter (strict_candidate target recent amin) (filter (\<lambda>q. topic q = t) (questions db)) \<noteq> []
      \<longrightarrow> (\<exists>q. select_optimal_question_IRT db t target recent amin = Some q \<and>
               q \<in> set (questions db) \<and> topic q = t \<and> strict_candidate target recent amin q \<and>
               (\<forall>q' \<in> set (questions db). topic q' = t \<and> strict_candidate target recent amin q'
                  \<longrightarrow> question_information target q' \<le> question_information target q))) \<and>
   ((\<forall>q \<in> set (questions db). topic q = t \<longrightarrow> question_id q \<in> set recent)
      \<longrightarrow> select_optimal_question_IRT db t target recent amin = None) \<and>
   (\<forall>q. select_optimal_question_IRT db t target recent amin = Some q
      \<longrightarrow> q \<in> set (questions db) \<and> topic q = t \<and> question_id q \<notin> set recent)"
proof -
  let ?pool = "filter (\<lambda>q. topic q = t) (questions db)"
  let ?strict = "filter (strict_candidate target recent amin) ?pool"
  let ?f = "question_information target"
  have sel: "select_optimal_question_IRT db t target recent amin =
      (case ?strict of [] \<Rightarrow> None | c # cs \<Rightarrow> Some (py_max_key ?f c cs))"
    by (auto simp: select_optimal_question_IRT_def stream_all_def Let_def split: list.splits)
  have 1: "\<exists>q. select_optimal_question_IRT db t target recent amin = Some q \<and>
               q \<in> set (questions db) \<and> topic q = t \<and> strict_candidate target recent amin q \<and>
               (\<forall>q' \<in> set (questions db). topic q' = t \<and> strict_candidate target recent amin q'
                  \<longrightarrow> ?f q' \<le> ?f q)" if ne: "?strict \<noteq> []"
  proof -
    obtain c cs where cs: "?strict = c # cs" using ne by (cases ?strict) auto
    let ?q = "py_max_key ?f c cs"
    have "?q \<in> set (c # cs)" unfolding py_max_key_def by (rule py_max_by_mem)
    then have "?q \<in> set ?strict" by (simp only: cs)
    moreover have "?f q' \<le> ?f ?q"
      if "q' \<in> set (questions db)" "topic q' = t" "strict_candidate target recent amin q'" for q'
    proof -
      have "q' \<in> set ?strict" using that by simp
      then have "q' \<in> set (c # cs)" by (simp only: cs)
      then show ?thesis by (rule py_max_key_ge)
    qed
    moreover have "select_optimal_question_IRT db t target recent amin = Some ?q"
      by (simp only: sel cs list.case)
    ultimately show ?thesis by auto
  qed
  have 2: "select_optimal_question_IRT db t target recent amin = None"
    if "\<forall>q \<in> set (questions db). topic q = t \<longrightarrow> question_id q \<in> set recent"
  proof -
    have "?strict = []" using that by (auto simp: filter_empty_conv strict_candidate_def)
    then show ?thesis using sel by simp
  qed
  have 3: "q \<in> set (questions db) \<and> topic q = t \<and> question_id q \<notin> set recent"
    if "select_optimal_question_IRT db t target recent amin = Some q" for q
  proof -
    from that sel obtain c cs where cs: "?strict = c # cs" and q: "q = py_max_key ?f c cs"
      by (auto split: list.splits)
    have "q \<in> set (c # cs)" unfolding q py_max_key_def by (rule py_max_by_mem)
    then have "q \<in> set ?strict" by (simp only: cs)
    then show ?thesis by (auto simp: strict_candidate_def)
  qed
  show ?thesis using 1 2 3 by blast
qed

theorem select_optimal_question_IRT_result_witness:
  "filter (strict_candidate 1 [] (14 / 10))
     (filter (\<lambda>q. topic q = ''T'') (questions db_selector_strict)) \<noteq> [] \<and>
   select_optimal_question_IRT db_selector_strict ''T'' 1 [] (14 / 10) \<noteq> None"
proof -
  have h: "filter (strict_candidate 1 [] (14 / 10))
     (filter (\<lambda>q. topic q = ''T'') (questions db_selector_strict)) \<noteq> []"
    by (simp add: db_selector_strict_def mk_database_def mk_question_def strict_candidate_def
        OPTIMAL_DIFFICULTY_RANGE_def)
  then show ?thesis
    using select_optimal_question_IRT_result[of 1 "[]" "14 / 10" "''T''" db_selector_strict]
    by auto
qed

text \<open>
  Claim C3 fails on the code, against the comment of the relaxation step (if no
  candidates, relax constraints). The topic has a single question, not recent, inside
  the difficulty window, with a discrimination below the minimum. The strict filter is
  empty; the relaxation reads the query stream a second time, which the first loop has
  used up, and the selector returns nothing, where the specification's cascade returns
  the question. The sibling \<open>select_questions_by_difficulty_range\<close>, which issues the
  query again for its relaxation, returns the question when its strict filter is empty.
  With a second question outside the window in the catalogue the selector returns
  nothing as well.
\<close>

theorem select_optimal_question_IRT_skips_relaxation:
  "select_optimal_question_IRT db_selector_single ''T'' 1 [] (14 / 10) = None \<and>
   spec_select db_selector_single ''T'' 1 [] (14 / 10) = Some (mk_question ''Q1'' ''T'' 1 1 0) \<and>
   mk_question ''Q1'' ''T'' 1 1 0 \<in> set (questions db_selector_single) \<and>
   topic (mk_question ''Q1'' ''T'' 1 1 0) = ''T'' \<and>
   question_id (mk_question ''Q1'' ''T'' 1 1 0) \<notin> set [] \<and>
   fst (select_questions_by_difficulty_range db_selector_single ''T'' 2 3 1 [] (14 / 10) [])
     = [mk_question ''Q1'' ''T'' 1 1 0] \<and>
   select_optimal_question_IRT db_selector ''T'' 1 [] (14 / 10) = None \<and>
   spec_select db_selector ''T'' 1 [] (14 / 10) = Some (mk_question ''Q1'' ''T'' 1 1 0)"
  by (simp add: select_optimal_question_IRT_def spec_select_def db_selector_def
      db_selector_single_def mk_database_def select_questions_by_difficulty_range_def
      mk_question_def stream_all_def strict_candidate_def OPTIMAL_DIFFICULTY_RANGE_def
      py_max_key_def Let_def)

section \<open>Properties of the quiz generation\<close>

lemma interleave_length:
  "interleave_questions_by_topic qs g = Inr (out, g') \<Longrightarrow> length out = length qs"
proof -
  assume a: "interleave_questions_by_topic qs g = Inr (out, g')"
  obtain out' g'' where "interleave_questions_by_topic qs g = Inr (out', g'')" "mset out' = mset qs"
    using interleave_result[of qs g] by blast
  then have "mset out = mset qs" using a by simp
  then show ?thesis by (metis size_mset)
qed

lemma save_quiz_metadata_students:
  "save_quiz_metadata db sid r n phase qs now = Inr db' \<Longrightarrow> students db' = students db"
  by (auto simp: save_quiz_metadata_def Let_def split: option.splits)

lemma generate_recovery_quiz_effect:
  assumes "generate_recovery_quiz db sid sd now g = Inr (quiz, db', g')"
  shows "students db' = students db" and "length quiz \<le> 10"
proof -
  obtain rq g3 where rq: "recovery_questions_of db sid sd now g = (rq, g3)"
    by (cases "recovery_questions_of db sid sd now g")
  from assms obtain il g4 where il: "interleave_questions_by_topic (take 10 rq) g3 = Inr (il, g4)"
    and sv: "save_quiz_metadata (log_circuit_breaker_event db sid ''consecutive_failures'' True now)
               sid True (completed_quiz_count sd) ''recovery'' il now = Inr db'"
    and q: "quiz = il"
    by (auto simp: generate_recovery_quiz_def rq Let_def split: sum.splits)
  show "students db' = students db"
    using save_quiz_metadata_students[OF sv] by (simp add: log_circuit_breaker_event_def)
  show "length quiz \<le> 10" using interleave_length[OF il] q by simp
qed

lemma generate_daily_quiz_recovery:
  assumes "students db sid = Some sd" "check_circuit_breaker db sid"
    and "generate_daily_quiz db sid qarg now g = Inr (quiz, db', g')"
  shows "students db' = (students db)(sid \<mapsto> finish_quiz now ''recovery'' sd)"
    and "length quiz \<le> 10"
proof -
  from assms obtain db1 where r: "generate_recovery_quiz db sid sd now g = Inr (quiz, db1, g')"
    and d: "db' = update_student db1 sid (finish_quiz now ''recovery'')"
    by (auto simp: generate_daily_quiz_def Let_def split: sum.splits)
  have s: "students db1 = students db" using generate_recovery_quiz_effect(1)[OF r] .
  show "students db' = (students db)(sid \<mapsto> finish_quiz now ''recovery'' sd)"
    using assms(1) by (simp add: d update_student_def s)
  show "length quiz \<le> 10" using generate_recovery_quiz_effect(2)[OF r] .
qed

lemma generate_normal_quiz_effect:
  assumes "students db sid = Some sd"
    and "generate_normal_quiz db sid sd q now g = Inr (quiz, db', g')"
  shows "students db' = (students db)
           (sid \<mapsto> finish_quiz now (fst (learning_phase_and_ratio q)) (switch_mark q sd))"
    and "length quiz \<le> 10"
proof -
  obtain phase ratio where pr: "learning_phase_and_ratio q = (phase, ratio)"
    by (cases "learning_phase_and_ratio q")
  have "\<exists>db2. length quiz \<le> QUIZ_LENGTH \<and>
      save_quiz_metadata (mark_phase_transition db sid sd q) sid False q phase quiz now = Inr db2 \<and>
      db' = update_student db2 sid (finish_quiz now phase)"
    using assms(2) unfolding generate_normal_quiz_def compose_quiz_def Let_def pr
    by (auto split: sum.splits)
  then obtain db2 where
    q: "length quiz \<le> QUIZ_LENGTH"
    and sv: "save_quiz_metadata (mark_phase_transition db sid sd q) sid False q phase quiz now = Inr db2"
    and d: "db' = update_student db2 sid (finish_quiz now phase)"
    by blast
  have s1: "students (mark_phase_transition db sid sd q) = (students db)(sid \<mapsto> switch_mark q sd)"
    using assms(1)
    by (auto simp: mark_phase_transition_def switch_mark_def update_student_def
        EXPLORATION_END_QUIZ_def)
  have s2: "students db2 = students (mark_phase_transition db sid sd q)"
    using save_quiz_metadata_students[OF sv] .
  show "students db' = (students db)
           (sid \<mapsto> finish_quiz now (fst (learning_phase_and_ratio q)) (switch_mark q sd))"
    unfolding d update_student_def s2 s1 by (simp add: pr)
  show "length quiz \<le> 10" using q by (simp add: QUIZ_LENGTH_def)
qed

lemma generate_daily_quiz_normal:
  assumes "students db sid = Some sd" "\<not> check_circuit_breaker db sid"
    and "generate_daily_quiz db sid qarg now g = Inr (quiz, db', g')"
    and "q = (case qarg of None \<Rightarrow> completed_quiz_count sd | Some n \<Rightarrow> n)"
  shows "students db' = (students db)
           (sid \<mapsto> finish_quiz now (fst (learning_phase_and_ratio q)) (switch_mark q sd))"
    and "length quiz \<le> 10"
proof -
  have n: "generate_normal_quiz db sid sd q now g = Inr (quiz, db', g')"
    using assms by (simp add: generate_daily_quiz_def Let_def)
  show "students db' = (students db)
           (sid \<mapsto> finish_quiz now (fst (learning_phase_and_ratio q)) (switch_mark q sd))"
    using generate_normal_quiz_effect(1)[OF assms(1) n] .
  show "length quiz \<le> 10" using generate_normal_quiz_effect(2)[OF assms(1) n] .
qed

text \<open>
  The definitions that the evaluation of a call on a concrete database unfolds.
\<close>

lemmas eval_defs = generate_daily_quiz_def mk_database_def
      mk_profile_def mk_topic_theta_def mk_question_def mk_response_def check_circuit_breaker_def
      order_by_answered_at_desc_def CIRCUIT_BREAKER_THRESHOLD_def get_recent_questions_def
      learning_phase_and_ratio_def EXPLORATION_END_QUIZ_def exploitation_questions_def
      phase_questions_def generate_normal_quiz_def compose_quiz_def mark_phase_transition_def
      rank_topics_by_priority_formula_def lookup_thetas_def sorted_desc_def
      WEAK_TOPIC_COUNT_EXPLOITATION_def MAINTENANCE_COUNT_EXPLOITATION_def
      select_optimal_question_IRT_def stream_all_def strict_candidate_def
      OPTIMAL_DIFFICULTY_RANGE_def py_max_key_def theta_of_def get_spaced_review_question_def
      interleave_questions_by_topic_def interleave_loop.simps random_choice_def
      QUIZ_LENGTH_def save_quiz_metadata_def update_student_def finish_quiz_def
      generate_recovery_quiz_def recovery_questions_of_def select_questions_by_difficulty_range_def
      get_previously_correct_question_def log_circuit_breaker_event_def
      RECENT_QUESTIONS_WINDOW_DAYS_def seconds_per_day_def RECOVERY_EASY_MIN_def RECOVERY_EASY_MAX_def
      RECOVERY_MEDIUM_MIN_def RECOVERY_MEDIUM_MAX_def switched_at_def
      Let_def


lemma emitted_quiz_Inr:
  "emitted_quiz r = Inr quiz \<Longrightarrow> \<exists>db' g'. r = Inr (quiz, db', g')"
  by (auto simp: emitted_quiz_def split: sum.splits)

lemma one_question_run:
  "emitted_quiz (generate_daily_quiz db_one_question ''s1'' None 100 [])
     = Inr [mk_question ''Q1'' ''T'' 1 (3 / 2) 0, mk_question ''Q1'' ''T'' 1 (3 / 2) 0]"
  by (simp add: emitted_quiz_def db_one_question_def eval_defs)

text \<open>
  Claim C1, as amended. Every quiz that \<open>generate_daily_quiz\<close> returns, on the
  normal path or on the recovery path, has at most 10 questions, whatever the profile,
  the catalogue, the response history and the random source are.
\<close>

theorem generate_daily_quiz_length:
  "generate_daily_quiz db student_id quiz_count_arg now g = Inr (quiz, db', g')
     \<Longrightarrow> length quiz \<le> 10"
proof -
  assume a: "generate_daily_quiz db student_id quiz_count_arg now g = Inr (quiz, db', g')"
  then obtain sd where sd: "students db student_id = Some sd"
    by (auto simp: generate_daily_quiz_def split: option.splits if_splits)
  show ?thesis
  proof (cases "check_circuit_breaker db student_id")
    case True
    then show ?thesis using generate_daily_quiz_recovery(2)[OF sd True a] by simp
  next
    case False
    then show ?thesis using generate_daily_quiz_normal(2)[OF sd False a refl] by simp
  qed
qed

theorem generate_daily_quiz_length_witness:
  "\<exists>quiz db' g'. generate_daily_quiz db_one_question ''s1'' None 100 [] = Inr (quiz, db', g') \<and>
      length quiz \<le> 10"
proof -
  obtain quiz db' g' where
    r: "generate_daily_quiz db_one_question ''s1'' None 100 [] = Inr (quiz, db', g')"
    using emitted_quiz_Inr[OF one_question_run] by blast
  then show ?thesis using generate_daily_quiz_length[OF r] by blast
qed

text \<open>
  Claim C1 as stated fails in its second half: nothing in the composition removes a
  question that two slots select. For a student in the exploitation phase with one
  tested topic and one question of that topic, the weak-topic slot and the maintenance
  slot both select that question, and the quiz holds it twice.
\<close>

theorem generate_daily_quiz_distinct_counterexample:
  "emitted_quiz (generate_daily_quiz db_one_question ''s1'' None 100 [])
     = Inr [mk_question ''Q1'' ''T'' 1 (3 / 2) 0, mk_question ''Q1'' ''T'' 1 (3 / 2) 0] \<and>
   \<not> distinct (map question_id
         [mk_question ''Q1'' ''T'' 1 (3 / 2) 0, mk_question ''Q1'' ''T'' 1 (3 / 2) 0])"
  by (simp add: one_question_run)

text \<open>
  A quiz is returned, and no exception raised, whenever the student's document exists and
  every topic with two attempts or more has a record in \<open>theta_by_topic\<close>.
\<close>

lemma lookup_thetas_keys: "\<exists>keyed. lookup_thetas (map fst tbt) tbt = Inr keyed"
proof -
  have "list_all (\<lambda>t. map_of tbt t \<noteq> None) (map fst tbt)"
    by (auto simp: list_all_iff map_of_eq_None_iff)
  then show ?thesis by (simp add: lookup_thetas_def)
qed

lemma exploitation_questions_returns:
  "\<exists>qs g'. exploitation_questions db sid sd recent now g = Inr (qs, g')"
proof -
  obtain keyed where "lookup_thetas (map fst (theta_by_topic sd)) (theta_by_topic sd) = Inr keyed"
    using lookup_thetas_keys by blast
  then show ?thesis
    by (simp add: exploitation_questions_def rank_topics_by_priority_formula_def Let_def
        split: prod.splits)
qed

lemma exploration_questions_returns:
  assumes "\<forall>(t, n) \<in> set (topic_attempt_counts sd). n \<ge> 2 \<longrightarrow> map_of (theta_by_topic sd) t \<noteq> None"
  shows "\<exists>qs. exploration_questions db sid sd ratio recent now = Inr qs"
proof -
  have "list_all (\<lambda>t. map_of (theta_by_topic sd) t \<noteq> None)
          (map fst (filter (\<lambda>(t, n). n \<ge> 2) (topic_attempt_counts sd)))"
    using assms by (auto simp: list_all_iff)
  then show ?thesis
    by (simp add: exploration_questions_def rank_topics_by_weakness_def lookup_thetas_def Let_def)
qed

lemma save_quiz_metadata_returns:
  "students db sid = Some sd \<Longrightarrow> \<exists>db'. save_quiz_metadata db sid r n phase qs now = Inr db'"
  by (simp add: save_quiz_metadata_def Let_def)

lemma generate_daily_quiz_returns:
  assumes "students db sid = Some sd"
    and "\<forall>(t, n) \<in> set (topic_attempt_counts sd). n \<ge> 2 \<longrightarrow> map_of (theta_by_topic sd) t \<noteq> None"
  shows "\<exists>quiz db' g'. generate_daily_quiz db sid qarg now g = Inr (quiz, db', g')"
proof (cases "check_circuit_breaker db sid")
  case True
  obtain rq g3 where rq: "recovery_questions_of db sid sd now g = (rq, g3)"
    by (cases "recovery_questions_of db sid sd now g")
  obtain il g4 where il: "interleave_questions_by_topic (take 10 rq) g3 = Inr (il, g4)"
    using interleave_result[of "take 10 rq" g3] by blast
  have "students (log_circuit_breaker_event db sid ''consecutive_failures'' True now) sid = Some sd"
    using assms(1) by (simp add: log_circuit_breaker_event_def)
  from save_quiz_metadata_returns[OF this]
  obtain db2 where "save_quiz_metadata
      (log_circuit_breaker_event db sid ''consecutive_failures'' True now) sid True
      (completed_quiz_count sd) ''recovery'' il now = Inr db2"
    by blast
  then show ?thesis
    using True assms(1) rq il
    by (simp add: generate_daily_quiz_def generate_recovery_quiz_def Let_def)
next
  case False
  define q where "q = (case qarg of None \<Rightarrow> completed_quiz_count sd | Some n \<Rightarrow> n)"
  obtain phase ratio where pr: "learning_phase_and_ratio q = (phase, ratio)"
    by (cases "learning_phase_and_ratio q")
  define db1 where "db1 = mark_phase_transition db sid sd q"
  define recent where "recent = get_recent_questions db sid now RECENT_QUESTIONS_WINDOW_DAYS"
  have "\<exists>sd1. students db1 sid = Some sd1"
    using assms(1) by (auto simp: db1_def mark_phase_transition_def update_student_def)
  then obtain sd1 where sd1: "students db1 sid = Some sd1" by blast
  have "\<exists>qs g1. phase_questions db1 sid sd phase ratio recent now g = Inr (qs, g1)"
  proof (cases "phase = ''exploration''")
    case True
    then show ?thesis
      using exploration_questions_returns[OF assms(2), of db1 sid ratio recent now]
      by (auto simp: phase_questions_def)
  next
    case False
    then show ?thesis
      using exploitation_questions_returns[of db1 sid sd recent now g]
      by (auto simp: phase_questions_def)
  qed
  then obtain qs g1 where pq: "phase_questions db1 sid sd phase ratio recent now g = Inr (qs, g1)"
    by blast
  obtain il g2 where il: "interleave_questions_by_topic qs g1 = Inr (il, g2)"
    using interleave_result[of qs g1] by blast
  obtain db2 where "save_quiz_metadata db1 sid False q phase (take QUIZ_LENGTH il) now = Inr db2"
    using save_quiz_metadata_returns[OF sd1] by blast
  then show ?thesis
    using False assms(1) pr pq il
    by (simp add: generate_daily_quiz_def generate_normal_quiz_def compose_quiz_def Let_def
        q_def[symmetric] db1_def[symmetric] recent_def[symmetric])
qed

lemma switch_mark_keeps:
  "phase_switched_at_quiz sd = Some v \<Longrightarrow> phase_switched_at_quiz (switch_mark q sd) = Some v"
  by (simp add: switch_mark_def)










section \<open>Properties of the recovery quiz\<close>

text \<open>
  The review slot of the recovery quiz is never filled: an answer given 7 to 14 days
  ago lies within the last 30 days, so its question is in the recent set that the
  candidates must avoid.
\<close>

lemma get_previously_correct_question_never:
  "fst (get_previously_correct_question db sid
          (get_recent_questions db sid now RECENT_QUESTIONS_WINDOW_DAYS) topics now g) = None"
proof -
  have "filter (\<lambda>r. r_topic r \<in> set topics \<and>
           r_question_id r \<notin> set (get_recent_questions db sid now RECENT_QUESTIONS_WINDOW_DAYS))
         (filter (\<lambda>r. is_correct r \<and> answered_at r \<ge> now - 14 * seconds_per_day
                        \<and> answered_at r \<le> now - 7 * seconds_per_day)
            (student_responses db sid)) = []"
    by (auto simp: filter_empty_conv get_recent_questions_def Let_def
        RECENT_QUESTIONS_WINDOW_DAYS_def seconds_per_day_def)
  then show ?thesis by (simp add: get_previously_correct_question_def Let_def)
qed

text \<open>
  Claim C2 fails on the code. For the student of \<open>db_recovery\<close> the circuit breaker
  is triggered and every slot can be filled as the claim describes, also the review
  slot (V1, answered correctly 10 days ago, in the weakest topic). The recovery quiz
  has 8 easy questions, two from each of the four weakest topics, the 2 medium
  questions, and no review question.
\<close>

theorem recovery_quiz_composition:
  "check_circuit_breaker db_recovery ''s1'' \<and>
   emitted_ids (generate_daily_quiz db_recovery ''s1'' None 1728000 [])
     = Inr [''E1A'', ''E2A'', ''E1B'', ''E2B'', ''M1'', ''M2'', ''E3A'', ''E4A'', ''E3B'', ''E4B'']"
  by (simp add: emitted_ids_def db_recovery_def eval_defs eval_nat_numeral)

end
